theory Spec2Isabelle
  imports Complex_Main
begin

section \<open>Data model of the dashboard pages\<close>

text \<open>
  The repository's sources are the browser front end of the portfolio optimiser: four
  generations of the dashboard page (\<^verbatim>\<open>portfolio-pro/frontend/Calculation.js\<close>,
  \<^verbatim>\<open>portfolio_app_v2/frontend/js/dashboard.js\<close>, the unnamed \<^verbatim>\<open>part_001\<close> and
  \<^verbatim>\<open>portfolio_app_v6/frontend/js/dashboard.js\<close>) and the HTTP adapter
  \<^verbatim>\<open>portfolio_app_v3/frontend/js/api.js\<close>.

  A JavaScript number is a \<^typ>\<open>real\<close>: every double is one, and doubles are compared
  exactly. The sum of two doubles is rounded, so the addition that the validation uses
  is an argument \<open>add\<close> of the model, of which nothing is assumed; what is proved holds
  for the addition of doubles. The division by 100 on the way to the payload is the
  exact one, and the value NaN is outside the model. A property that is \<^verbatim>\<open>null\<close>,
  \<^verbatim>\<open>undefined\<close> or absent is
  \<^const>\<open>None\<close>. A form field read through \<^verbatim>\<open>parseFloat\<close> is held already parsed, as
  \<^typ>\<open>real option\<close>, with \<^const>\<open>None\<close> where \<^verbatim>\<open>parseFloat\<close> yields NaN.
\<close>

text \<open>
  An entry of \<^verbatim>\<open>DashboardState.assets\<close>:
  \<^verbatim>\<open>{ ticker, name, sector, quantity, weight, minWeight, maxWeight }\<close>. The older pages
  push \<^verbatim>\<open>{ ticker, name, sector }\<close> only; the properties they leave out read as
  \<^verbatim>\<open>undefined\<close>, here \<^const>\<open>None\<close>.
\<close>

record asset =
  ticker :: string
  name :: string
  sector :: string
  quantity :: "real option"
  weight :: "real option"
  minWeight :: "real option"
  maxWeight :: "real option"

text \<open>
  A portfolio of the response (\<^verbatim>\<open>p.name\<close>, \<^verbatim>\<open>p.tickers\<close>, \<^verbatim>\<open>p.weights\<close>,
  \<^verbatim>\<open>p.metrics.sharpe\<close>) and the response itself (\<^verbatim>\<open>data.all_portfolios\<close>,
  \<^verbatim>\<open>data.best_portfolio\<close>). The field names carry the prefix \<open>p_\<close> where the
  source's name is already a field of \<^typ>\<open>asset\<close>.
\<close>

record portfolio =
  p_name :: string
  p_tickers :: "string list"
  p_weights :: "real list"
  p_sharpe :: "real option"

record data =
  all_portfolios :: "portfolio list option"
  best_portfolio :: "string option"

text \<open>
  \<^verbatim>\<open>const DashboardState = { assets: [], charts: {}, isManualWeights: false,
  lastResult: null }\<close>. The chart instances belong to rendering and are left out.
\<close>

record DashboardState =
  assets :: "asset list"
  isManualWeights :: bool
  lastResult :: "data option"

definition initialState :: DashboardState where
  "initialState = \<lparr>assets = [], isManualWeights = False, lastResult = None\<rparr>"

text \<open>What a validation or a handler tells the user through \<^verbatim>\<open>alert\<close>.\<close>

datatype message =
  AlreadyAdded
  | TooFewAssets
  | QuantityMissing string
  | QuantityAbove100 string
  | BudgetBelow100
  | MinAboveMax string real real
  | MinSumAbove100 real
  | OptimizationFailed string

section \<open>Managing the selected assets\<close>

text \<open>
  \<^verbatim>\<open>function addAsset(ticker, name, sector) {
    if (DashboardState.assets.some(a => a.ticker === ticker)) {
        alert('...'); return;
    }
    DashboardState.assets.push({ ticker, name, sector,
        quantity: null, weight: null, minWeight: null, maxWeight: null });
    ...
  }\<close>
  The handlers return the alert they raise, if any, and the new state.
\<close>

definition addAsset ::
  "string \<Rightarrow> string \<Rightarrow> string \<Rightarrow> DashboardState \<Rightarrow> message option \<times> DashboardState" where
  "addAsset t n s st =
     (if \<exists>a \<in> set (assets st). ticker a = t then (Some AlreadyAdded, st)
      else (None, st\<lparr>assets := assets st @
              [\<lparr>ticker = t, name = n, sector = s, quantity = None, weight = None,
                minWeight = None, maxWeight = None\<rparr>]\<rparr>))"

text \<open>
  \<^verbatim>\<open>function removeAsset(ticker) {
    DashboardState.assets = DashboardState.assets.filter(a => a.ticker !== ticker);
    renderAssetList();
  }\<close>
\<close>

definition removeAsset :: "string \<Rightarrow> DashboardState \<Rightarrow> DashboardState" where
  "removeAsset t st = st\<lparr>assets := filter (\<lambda>a. ticker a \<noteq> t) (assets st)\<rparr>"

text \<open>
  \<^verbatim>\<open>function clearAllAssets() {
    if (DashboardState.assets.length === 0) return;
    if (!confirm('...')) return;
    DashboardState.assets = [];
    renderAssetList();
  }\<close>
  The answer to \<^verbatim>\<open>confirm\<close> is an argument.
\<close>

definition clearAllAssets :: "bool \<Rightarrow> DashboardState \<Rightarrow> DashboardState" where
  "clearAllAssets confirmed st =
     (if assets st = [] then st
      else if \<not> confirmed then st
      else st\<lparr>assets := []\<rparr>)"

text \<open>
  \<^verbatim>\<open>function updateAssetField(ticker, field, value) {
    const asset = DashboardState.assets.find(a => a.ticker === ticker);
    if (asset) asset[field] = value !== '' ? parseFloat(value) : null;
  }\<close>
  The inline handlers of the table call it with one of four field names. The value is
  held parsed: \<^const>\<open>None\<close> for the empty string.
\<close>

datatype field = Quantity | Weight | MinWeight | MaxWeight

definition setField :: "field \<Rightarrow> real option \<Rightarrow> asset \<Rightarrow> asset" where
  "setField f v a =
     (case f of
        Quantity \<Rightarrow> a\<lparr>quantity := v\<rparr>
      | Weight \<Rightarrow> a\<lparr>weight := v\<rparr>
      | MinWeight \<Rightarrow> a\<lparr>minWeight := v\<rparr>
      | MaxWeight \<Rightarrow> a\<lparr>maxWeight := v\<rparr>)"

fun updateFirst :: "string \<Rightarrow> (asset \<Rightarrow> asset) \<Rightarrow> asset list \<Rightarrow> asset list" where
  "updateFirst t g [] = []"
| "updateFirst t g (a # as) = (if ticker a = t then g a # as else a # updateFirst t g as)"

definition updateAssetField ::
  "string \<Rightarrow> field \<Rightarrow> real option \<Rightarrow> DashboardState \<Rightarrow> DashboardState" where
  "updateAssetField t f v st = st\<lparr>assets := updateFirst t (setField f v) (assets st)\<rparr>"

text \<open>
  The second generation stores the weight as \<^verbatim>\<open>parseFloat(value) || null\<close>: a zero is
  stored as \<^verbatim>\<open>null\<close>.
\<close>

definition updateAssetWeight :: "string \<Rightarrow> real option \<Rightarrow> DashboardState \<Rightarrow> DashboardState" where
  "updateAssetWeight t v st =
     st\<lparr>assets := updateFirst t (\<lambda>a. a\<lparr>weight := (if v = Some 0 then None else v)\<rparr>) (assets st)\<rparr>"

text \<open>The click handler of the manual-weights toggle.\<close>

definition toggleManualWeights :: "DashboardState \<Rightarrow> DashboardState" where
  "toggleManualWeights st = st\<lparr>isManualWeights := \<not> isManualWeights st\<rparr>"

section \<open>Validation of the form\<close>

text \<open>
  The inputs of the page, read by \<^verbatim>\<open>document.getElementById(...).value\<close>. The budget and
  the risk-free rate are held as \<^verbatim>\<open>parseFloat\<close> reads them (\<^const>\<open>None\<close> for NaN or a
  missing element), the cardinality cap as \<^verbatim>\<open>parseInt\<close> reads it (\<^const>\<open>None\<close> for a
  missing element, the empty string or NaN, which all reach the payload as \<^verbatim>\<open>null\<close>).
\<close>

record form =
  inp_budget :: "real option"
  inp_startDate :: string
  inp_endDate :: string
  inp_algorithm :: string
  inp_riskFreeRate :: "real option"
  inp_maxAssets :: "int option"

text \<open>
  A page: its \<^verbatim>\<open>DashboardState\<close>, its form and \<^verbatim>\<open>AppState.get('knowledgeLevel')\<close>.
\<close>

record page =
  dashboard :: DashboardState
  inputs :: form
  knowledgeLevel :: "string option"

text \<open>
  JavaScript truthiness of a number or \<^verbatim>\<open>null\<close>, and \<^verbatim>\<open>v || d\<close> for a string or
  \<^verbatim>\<open>null\<close> \<open>v\<close> and a string \<open>d\<close>.
\<close>

definition truthy :: "real option \<Rightarrow> bool" where
  "truthy v = (case v of None \<Rightarrow> False | Some x \<Rightarrow> x \<noteq> 0)"

definition orElse :: "string option \<Rightarrow> string \<Rightarrow> string" where
  "orElse v d = (case v of None \<Rightarrow> d | Some x \<Rightarrow> if x = [] then d else x)"

definition isPro :: "page \<Rightarrow> bool" where
  "isPro pg = (knowledgeLevel pg = Some ''professional'')"

text \<open>
  \<^verbatim>\<open>for (const a of assets) {
    if (!a.quantity || a.quantity <= 0)
        return `... ${a.ticker} (> 0).`;
  }\<close>
  in \<^verbatim>\<open>part_001\<close>; the sixth generation adds
  \<^verbatim>\<open>if (a.quantity > 100) return `${a.ticker}: ...`;\<close> inside the loop.
\<close>

fun checkQuantities :: "asset list \<Rightarrow> message option" where
  "checkQuantities [] = None"
| "checkQuantities (a # as) =
     (case quantity a of
        None \<Rightarrow> Some (QuantityMissing (ticker a))
      | Some q \<Rightarrow>
          if q = 0 \<or> q \<le> 0 then Some (QuantityMissing (ticker a))
          else checkQuantities as)"

fun checkQuantities_v6 :: "asset list \<Rightarrow> message option" where
  "checkQuantities_v6 [] = None"
| "checkQuantities_v6 (a # as) =
     (case quantity a of
        None \<Rightarrow> Some (QuantityMissing (ticker a))
      | Some q \<Rightarrow>
          if q = 0 \<or> q \<le> 0 then Some (QuantityMissing (ticker a))
          else if q > 100 then Some (QuantityAbove100 (ticker a))
          else checkQuantities_v6 as)"

text \<open>
  \<^verbatim>\<open>let totalMin = 0;
  for (const a of assets) {
    if (a.minWeight != null) totalMin += parseFloat(a.minWeight);
    if (a.minWeight != null && a.maxWeight != null &&
        parseFloat(a.minWeight) > parseFloat(a.maxWeight))
        return `${a.ticker}: ...`;
  }\<close>
  The loop either returns its message or ends with \<^verbatim>\<open>totalMin\<close>. The operation
  \<^verbatim>\<open>+=\<close> on doubles is the argument \<open>add\<close>.
\<close>

fun checkLimits :: "(real \<Rightarrow> real \<Rightarrow> real) \<Rightarrow> real \<Rightarrow> asset list \<Rightarrow> message + real" where
  "checkLimits add totalMin [] = Inr totalMin"
| "checkLimits add totalMin (a # as) =
     (let totalMin' = (case minWeight a of Some m \<Rightarrow> add totalMin m | None \<Rightarrow> totalMin) in
      case (minWeight a, maxWeight a) of
        (Some mn, Some mx) \<Rightarrow>
          if mn > mx then Inl (MinAboveMax (ticker a) mn mx) else checkLimits add totalMin' as
      | _ \<Rightarrow> checkLimits add totalMin' as)"

text \<open>
  The value of \<^verbatim>\<open>totalMin\<close> after the loop has run over all the assets: the total of
  the entered minimum percentages as the page itself adds them up, from 0, in the order
  of the assets.
\<close>

definition totalMinOf :: "(real \<Rightarrow> real \<Rightarrow> real) \<Rightarrow> asset list \<Rightarrow> real" where
  "totalMinOf add as =
     foldl (\<lambda>totalMin a. case minWeight a of Some m \<Rightarrow> add totalMin m | None \<Rightarrow> totalMin) 0 as"

text \<open>
  \<^verbatim>\<open>if (isPro) {
    ... the loop above ...
    if (totalMin > 100)
        return `... (${totalMin.toFixed(1)}%) ...`;
  }\<close>
\<close>

definition checkPro :: "(real \<Rightarrow> real \<Rightarrow> real) \<Rightarrow> page \<Rightarrow> message option" where
  "checkPro add pg =
     (if isPro pg then
        (case checkLimits add 0 (assets (dashboard pg)) of
           Inl m \<Rightarrow> Some m
         | Inr totalMin \<Rightarrow> if totalMin > 100 then Some (MinSumAbove100 totalMin) else None)
      else None)"

text \<open>
  \<^verbatim>\<open>validateForm\<close> of \<^verbatim>\<open>part_001\<close>: at least two assets, a positive quantity for each,
  \<^verbatim>\<open>if (!budget || budget < 100) return '...';\<close>, then the professional checks.
\<close>

definition validateForm :: "(real \<Rightarrow> real \<Rightarrow> real) \<Rightarrow> page \<Rightarrow> message option" where
  "validateForm add pg =
     (if length (assets (dashboard pg)) < 2 then Some TooFewAssets
      else case checkQuantities (assets (dashboard pg)) of
        Some m \<Rightarrow> Some m
      | None \<Rightarrow>
          (case inp_budget (inputs pg) of
             None \<Rightarrow> Some BudgetBelow100
           | Some budget \<Rightarrow>
               if budget = 0 \<or> budget < 100 then Some BudgetBelow100
               else checkPro add pg))"

text \<open>
  \<^verbatim>\<open>validateForm\<close> of the sixth generation: no budget check, and the quantity of an asset
  is at most 100.
\<close>

definition validateForm_v6 :: "(real \<Rightarrow> real \<Rightarrow> real) \<Rightarrow> page \<Rightarrow> message option" where
  "validateForm_v6 add pg =
     (if length (assets (dashboard pg)) < 2 then Some TooFewAssets
      else case checkQuantities_v6 (assets (dashboard pg)) of
        Some m \<Rightarrow> Some m
      | None \<Rightarrow> checkPro add pg)"

section \<open>The optimization payload\<close>

text \<open>
  The argument \<^verbatim>\<open>params\<close> of \<^verbatim>\<open>buildOptimizationPayload\<close>. A property that is
  \<^verbatim>\<open>undefined\<close> is \<^const>\<open>None\<close> and takes the default of the destructuring
  \<^verbatim>\<open>{ budget = 10000, startDate = null, endDate = null,
     optimizationModel = 'max_sharpe', riskFreeRate = 0.02, maxAssets = null,
     isManualWeights = false } = params\<close>.
  The risk-free rate, when defined, is a number or NaN (\<^const>\<open>None\<close> inside).
\<close>

record params =
  budget :: "real option"
  startDate :: "string option"
  endDate :: "string option"
  optimizationModel :: "string option"
  riskFreeRate :: "real option option"
  maxAssets :: "int option"
  isManualWeights_param :: "bool option"

text \<open>
  The body of the request: \<^verbatim>\<open>assets: [{ticker, weight}]\<close>, the entries
  \<^verbatim>\<open>{min, max}\<close> of \<^verbatim>\<open>allocation_limits\<close> (an object keyed by ticker) and the other
  fields. A NaN is serialised as \<^verbatim>\<open>null\<close>, here \<^const>\<open>None\<close>.
\<close>

record assetEntry =
  e_ticker :: string
  e_weight :: "real option"

record limits =
  lim_min :: real
  lim_max :: real

record payload =
  pl_assets :: "assetEntry list"
  pl_budget :: real
  start_date :: "string option"
  end_date :: "string option"
  optimization_model :: string
  risk_free_rate :: "real option"
  max_assets :: "int option"
  allocation_limits :: "(string \<rightharpoonup> limits) option"
  manual_weights :: bool
  knowledge_level :: string

text \<open>
  \<^verbatim>\<open>assets.forEach(a => {
    const min = a.minWeight != null ? parseFloat(a.minWeight) / 100 : null;
    const max = a.maxWeight != null ? parseFloat(a.maxWeight) / 100 : null;
    if (min != null || max != null) {
        hasAnyLimit = true;
        allocationLimits[a.ticker] = {
            min: min != null ? min : 0.0,
            max: max != null ? max : 1.0
        };
    }
  });\<close>
\<close>

definition limitsOf :: "asset \<Rightarrow> limits option" where
  "limitsOf a =
     (let mn = map_option (\<lambda>x. x / 100) (minWeight a);
          mx = map_option (\<lambda>x. x / 100) (maxWeight a)
      in if mn \<noteq> None \<or> mx \<noteq> None
         then Some \<lparr>lim_min = (case mn of Some m \<Rightarrow> m | None \<Rightarrow> 0),
                    lim_max = (case mx of Some m \<Rightarrow> m | None \<Rightarrow> 1)\<rparr>
         else None)"

text \<open>
  The sum of the \<^verbatim>\<open>min_weight\<close> fractions of a request: the entered percentages divided
  by 100, as \<^const>\<open>limitsOf\<close> sends them; an asset without a minimum adds nothing.
\<close>

definition totalMinWeight :: "asset list \<Rightarrow> real" where
  "totalMinWeight as = (\<Sum>a\<leftarrow>as. case minWeight a of Some m \<Rightarrow> m / 100 | None \<Rightarrow> 0)"

fun allocationLimits :: "(string \<rightharpoonup> limits) \<Rightarrow> asset list \<Rightarrow> (string \<rightharpoonup> limits)" where
  "allocationLimits acc [] = acc"
| "allocationLimits acc (a # as) =
     (case limitsOf a of
        Some l \<Rightarrow> allocationLimits (acc(ticker a \<mapsto> l)) as
      | None \<Rightarrow> allocationLimits acc as)"

definition hasAnyLimit :: "asset list \<Rightarrow> bool" where
  "hasAnyLimit as = (\<exists>a \<in> set as. limitsOf a \<noteq> None)"

text \<open>
  \<^verbatim>\<open>weight: isManualWeights && a.weight ? parseFloat(a.weight) / 100 : null\<close>
\<close>

definition entryOf :: "bool \<Rightarrow> asset \<Rightarrow> assetEntry" where
  "entryOf manual a =
     \<lparr>e_ticker = ticker a,
      e_weight = (if manual \<and> truthy (weight a) then map_option (\<lambda>w. w / 100) (weight a)
                  else None)\<rparr>"

text \<open>
  \<^verbatim>\<open>return {
    assets: assets.map(a => ({ ticker: a.ticker, weight: ... })),
    budget: parseFloat(budget),
    start_date: startDate,
    end_date: endDate,
    optimization_model: optimizationModel,
    risk_free_rate: parseFloat(riskFreeRate),
    max_assets: maxAssets ? parseInt(maxAssets) : null,
    allocation_limits: hasAnyLimit ? allocationLimits : null,
    manual_weights: isManualWeights,
    knowledge_level: knowledgeLevel || AppState.get('knowledgeLevel') || 'beginner'
  };\<close>
  The last argument is \<^verbatim>\<open>AppState.get('knowledgeLevel')\<close>. The cap arrives as the
  string of its input or as \<^verbatim>\<open>null\<close> and is held as \<^verbatim>\<open>parseInt\<close> reads it.
\<close>

definition buildOptimizationPayload ::
  "asset list \<Rightarrow> params \<Rightarrow> string option \<Rightarrow> string option \<Rightarrow> payload" where
  "buildOptimizationPayload as ps level appLevel =
     (let manual = (case isManualWeights_param ps of Some b \<Rightarrow> b | None \<Rightarrow> False) in
      \<lparr>pl_assets = map (entryOf manual) as,
       pl_budget = (case budget ps of Some b \<Rightarrow> b | None \<Rightarrow> 10000),
       start_date = startDate ps,
       end_date = endDate ps,
       optimization_model = (case optimizationModel ps of Some m \<Rightarrow> m | None \<Rightarrow> ''max_sharpe''),
       risk_free_rate = (case riskFreeRate ps of Some r \<Rightarrow> r | None \<Rightarrow> Some 0.02),
       max_assets = maxAssets ps,
       allocation_limits = (if hasAnyLimit as then Some (allocationLimits Map.empty as) else None),
       manual_weights = manual,
       knowledge_level = orElse level (orElse appLevel ''beginner'')\<rparr>)"

section \<open>Running an optimization\<close>

text \<open>
  What a handler does besides changing the state: an \<^verbatim>\<open>alert\<close>, a POST of a payload to
  \<^verbatim>\<open>/api/optimize\<close>, the rendering of a response. The server is an argument: it answers
  a payload with a response, or with the message of the error that \<^verbatim>\<open>apiRequest\<close> throws.
\<close>

datatype ('q, 'r) effect = Alert message | Post 'q | Render 'r

text \<open>
  \<^verbatim>\<open>async function runOptimize() {
    const err = validateForm();
    if (err) { alert(err); return; }
    ...
    try {
        const params = {
            budget:            parseFloat(document.getElementById('budget')?.value || 10000),
            startDate:         document.getElementById('startDate').value,
            endDate:           document.getElementById('endDate').value,
            optimizationModel: document.getElementById('algorithm').value,
            riskFreeRate:      parseFloat(document.getElementById('riskFreeRate').value) / 100,
            maxAssets:         document.getElementById('maxAssets')?.value || null,
            isManualWeights:   DashboardState.isManualWeights,
        };
        const level = AppState.get('knowledgeLevel') || 'beginner';
        const data  = await runOptimization(DashboardState.assets, params, level);
        DashboardState.lastResult = data;
        renderResults(data, level);
    } catch (err) {
        alert('...' + err.message);
    } ...
  }\<close>
  The budget line is reached only after \<^verbatim>\<open>validateForm\<close> has found a budget of at
  least 100, so that it reads the parsed budget. The sixth generation sends the
  constant \<^verbatim>\<open>budget: 999999999\<close> instead.
\<close>

definition paramsOf :: "real option \<Rightarrow> page \<Rightarrow> params" where
  "paramsOf b pg =
     \<lparr>budget = b,
      startDate = Some (inp_startDate (inputs pg)),
      endDate = Some (inp_endDate (inputs pg)),
      optimizationModel = Some (inp_algorithm (inputs pg)),
      riskFreeRate = Some (map_option (\<lambda>r. r / 100) (inp_riskFreeRate (inputs pg))),
      maxAssets = inp_maxAssets (inputs pg),
      isManualWeights_param = Some (isManualWeights (dashboard pg))\<rparr>"

definition levelOf :: "page \<Rightarrow> string" where
  "levelOf pg = orElse (knowledgeLevel pg) ''beginner''"

definition submit ::
  "(payload \<Rightarrow> string + data) \<Rightarrow> real option \<Rightarrow> page \<Rightarrow> (payload, data \<times> string) effect list \<times> page" where
  "submit server b pg =
     (let level = levelOf pg;
          request = buildOptimizationPayload (assets (dashboard pg)) (paramsOf b pg)
                      (Some level) (knowledgeLevel pg)
      in case server request of
           Inr d \<Rightarrow> ([Post request, Render (d, level)],
                      pg\<lparr>dashboard := (dashboard pg)\<lparr>lastResult := Some d\<rparr>\<rparr>)
         | Inl e \<Rightarrow> ([Post request, Alert (OptimizationFailed e)], pg))"

definition runOptimize ::
  "(real \<Rightarrow> real \<Rightarrow> real) \<Rightarrow> (payload \<Rightarrow> string + data) \<Rightarrow> page \<Rightarrow>
     (payload, data \<times> string) effect list \<times> page" where
  "runOptimize add server pg =
     (case validateForm add pg of
        Some err \<Rightarrow> ([Alert err], pg)
      | None \<Rightarrow> submit server (inp_budget (inputs pg)) pg)"

definition runOptimize_v6 ::
  "(real \<Rightarrow> real \<Rightarrow> real) \<Rightarrow> (payload \<Rightarrow> string + data) \<Rightarrow> page \<Rightarrow>
     (payload, data \<times> string) effect list \<times> page" where
  "runOptimize_v6 add server pg =
     (case validateForm_v6 add pg of
        Some err \<Rightarrow> ([Alert err], pg)
      | None \<Rightarrow> submit server (Some 999999999) pg)"

text \<open>
  The second generation builds its payload in \<^verbatim>\<open>runOptimize\<close> itself:
  \<^verbatim>\<open>if (DashboardState.assets.length < 2) { alert('...'); return; }
  ...
  const payload = {
      assets: DashboardState.assets.map(a => ({
          ticker: a.ticker,
          weight: DashboardState.isManualWeights ? (a.weight ? a.weight / 100 : null) : null
      })),
      start_date: ..., end_date: ..., optimization_goal: ...,
      risk_free_rate: parseFloat(document.getElementById('riskFreeRate').value) / 100,
      manual_weights: DashboardState.isManualWeights
  };\<close>
\<close>

record payload_v2 =
  v2_assets :: "assetEntry list"
  v2_start_date :: string
  v2_end_date :: string
  v2_optimization_goal :: string
  v2_risk_free_rate :: "real option"
  v2_manual_weights :: bool

definition entryOf_v2 :: "bool \<Rightarrow> asset \<Rightarrow> assetEntry" where
  "entryOf_v2 manual a =
     \<lparr>e_ticker = ticker a,
      e_weight = (if manual
                  then (if truthy (weight a) then map_option (\<lambda>w. w / 100) (weight a) else None)
                  else None)\<rparr>"

definition payloadOf_v2 :: "page \<Rightarrow> payload_v2" where
  "payloadOf_v2 pg =
     \<lparr>v2_assets = map (entryOf_v2 (isManualWeights (dashboard pg))) (assets (dashboard pg)),
      v2_start_date = inp_startDate (inputs pg),
      v2_end_date = inp_endDate (inputs pg),
      v2_optimization_goal = inp_algorithm (inputs pg),
      v2_risk_free_rate = map_option (\<lambda>r. r / 100) (inp_riskFreeRate (inputs pg)),
      v2_manual_weights = isManualWeights (dashboard pg)\<rparr>"

definition runOptimize_v2 ::
  "(payload_v2 \<Rightarrow> string + 'r) \<Rightarrow> page \<Rightarrow> (payload_v2, 'r) effect list" where
  "runOptimize_v2 server pg =
     (if length (assets (dashboard pg)) < 2 then [Alert TooFewAssets]
      else case server (payloadOf_v2 pg) of
             Inr d \<Rightarrow> [Post (payloadOf_v2 pg), Render d]
           | Inl e \<Rightarrow> [Post (payloadOf_v2 pg), Alert (OptimizationFailed e)])"

text \<open>
  The first generation (\<^verbatim>\<open>Calculation.js\<close>):
  \<^verbatim>\<open>if (AppState.assets.length < 2) { alert('Add minimum 2 assets!'); return; }
  ...
  const payload = {
      assets: AppState.assets.map(a => ({ ticker: a.ticker, allocation: 0 })),
      start_date: ..., end_date: ..., optimization_goal: ...,
      risk_free_rate: parseFloat(document.getElementById('riskFreeRate').value) / 100
  };
  const data = await apiCall('/optimize', { method: 'POST', body: JSON.stringify(payload) });
  AppState.results = data;
  displayResults(data);\<close>
  where \<^verbatim>\<open>apiCall\<close> alerts the error before it throws it again.
\<close>

record allocationEntry =
  a_ticker :: string
  allocation :: real

record payload_v1 =
  v1_assets :: "allocationEntry list"
  v1_start_date :: string
  v1_end_date :: string
  v1_optimization_goal :: string
  v1_risk_free_rate :: "real option"

definition payloadOf_v1 :: "page \<Rightarrow> payload_v1" where
  "payloadOf_v1 pg =
     \<lparr>v1_assets = map (\<lambda>a. \<lparr>a_ticker = ticker a, allocation = 0\<rparr>) (assets (dashboard pg)),
      v1_start_date = inp_startDate (inputs pg),
      v1_end_date = inp_endDate (inputs pg),
      v1_optimization_goal = inp_algorithm (inputs pg),
      v1_risk_free_rate = map_option (\<lambda>r. r / 100) (inp_riskFreeRate (inputs pg))\<rparr>"

definition optimize :: "(payload_v1 \<Rightarrow> string + 'r) \<Rightarrow> page \<Rightarrow> (payload_v1, 'r) effect list" where
  "optimize server pg =
     (if length (assets (dashboard pg)) < 2 then [Alert TooFewAssets]
      else case server (payloadOf_v1 pg) of
             Inr d \<Rightarrow> [Post (payloadOf_v1 pg), Render d]
           | Inl e \<Rightarrow> [Post (payloadOf_v1 pg), Alert (OptimizationFailed e)])"

text \<open>The effects that are a request to the server, and those that show a result.\<close>

fun posts :: "('q, 'r) effect list \<Rightarrow> 'q list" where
  "posts [] = []"
| "posts (Post q # es) = q # posts es"
| "posts (_ # es) = posts es"

fun renders :: "('q, 'r) effect list \<Rightarrow> 'r list" where
  "renders [] = []"
| "renders (Render r # es) = r # renders es"
| "renders (_ # es) = renders es"

section \<open>Presenting the best portfolio\<close>

text \<open>
  \<^verbatim>\<open>function getBestPortfolio(data) {
    const portfolios = data.all_portfolios || [];
    if (!portfolios.length) return null;
    return portfolios.find(p => p.name === data.best_portfolio) || portfolios[0];
  }\<close>
\<close>

definition portfoliosOf :: "data \<Rightarrow> portfolio list" where
  "portfoliosOf d = (case all_portfolios d of Some ps \<Rightarrow> ps | None \<Rightarrow> [])"

definition getBestPortfolio :: "data \<Rightarrow> portfolio option" where
  "getBestPortfolio d =
     (let portfolios = portfoliosOf d in
      case portfolios of
        [] \<Rightarrow> None
      | p0 # _ \<Rightarrow>
          (case find (\<lambda>p. Some (p_name p) = best_portfolio d) portfolios of
             Some p \<Rightarrow> Some p
           | None \<Rightarrow> Some p0))"

text \<open>
  The professional rendering marks the sections of the portfolios whose name is the
  designated one:
  \<^verbatim>\<open>const portfolios = data.all_portfolios || [];
  ...
  portfolios.forEach(p => {
    html += section(`... ${p.name}`,
        p.name === data.best_portfolio ? '...' : null,
        portfolioMetricsTable(p));
  });\<close>
\<close>

definition markedBest :: "data \<Rightarrow> portfolio list" where
  "markedBest d = filter (\<lambda>p. Some (p_name p) = best_portfolio d) (portfoliosOf d)"

text \<open>The Sharpe ratio that the comparison table reads: \<^verbatim>\<open>getM(p).sharpe ?? 0\<close>.\<close>

definition sharpeOf :: "portfolio \<Rightarrow> real" where
  "sharpeOf p = (case p_sharpe p of Some s \<Rightarrow> s | None \<Rightarrow> 0)"

section \<open>Reachable states of the asset list\<close>

text \<open>The states of \<^verbatim>\<open>DashboardState\<close> that the handlers lead to from the initial one.\<close>

inductive reachable :: "DashboardState \<Rightarrow> bool" where
  r_init: "reachable initialState"
| r_add: "reachable st \<Longrightarrow> reachable (snd (addAsset t n s st))"
| r_remove: "reachable st \<Longrightarrow> reachable (removeAsset t st)"
| r_clear: "reachable st \<Longrightarrow> reachable (clearAllAssets c st)"
| r_update: "reachable st \<Longrightarrow> reachable (updateAssetField t f v st)"
| r_weight: "reachable st \<Longrightarrow> reachable (updateAssetWeight t v st)"
| r_toggle: "reachable st \<Longrightarrow> reachable (toggleManualWeights st)"
| r_result: "reachable st \<Longrightarrow> reachable (st\<lparr>lastResult := d\<rparr>)"

section \<open>Example pages\<close>

text \<open>
  Concrete inputs on which the theorems below are instantiated: an asset with a quantity,
  a filled form, a page around a list of assets, and a server that cannot be reached.
  The examples add with the exact \<open>(+)\<close>: their minimums are small whole numbers, whose
  sums as doubles are exact.
\<close>

definition holding :: "string \<Rightarrow> real \<Rightarrow> asset" where
  "holding t q = \<lparr>ticker = t, name = t, sector = [], quantity = Some q, weight = None,
                  minWeight = None, maxWeight = None\<rparr>"

definition exampleForm :: form where
  "exampleForm = \<lparr>inp_budget = Some 10000, inp_startDate = ''2021-01-01'',
     inp_endDate = ''2024-01-01'', inp_algorithm = ''max_sharpe'',
     inp_riskFreeRate = Some 2, inp_maxAssets = None\<rparr>"

definition examplePage :: "string option \<Rightarrow> bool \<Rightarrow> asset list \<Rightarrow> page" where
  "examplePage level manual as =
     \<lparr>dashboard = \<lparr>assets = as, isManualWeights = manual, lastResult = None\<rparr>,
      inputs = exampleForm, knowledgeLevel = level\<rparr>"

definition offline :: "'q \<Rightarrow> string + 'r" where
  "offline q = Inl ''HTTP 503''"

text \<open>
  Parameters that only set the manual-weights flag, and an asset with an entered weight.
\<close>

definition manualParams :: "bool \<Rightarrow> params" where
  "manualParams manual =
     \<lparr>budget = None, startDate = None, endDate = None, optimizationModel = None,
      riskFreeRate = None, maxAssets = None, isManualWeights_param = Some manual\<rparr>"

definition weighted :: "string \<Rightarrow> real option \<Rightarrow> asset" where
  "weighted t w = (holding t 10)\<lparr>weight := w\<rparr>"

text \<open>An asset with entered bounds, in percent.\<close>

definition bounded :: "string \<Rightarrow> real option \<Rightarrow> real option \<Rightarrow> asset" where
  "bounded t mn mx = (holding t 10)\<lparr>minWeight := mn, maxWeight := mx\<rparr>"

section \<open>The engine's answer to a request for all objectives\<close>

text \<open>
  Modelled from the spec: the engine's fan-out over the four objectives, which is not
  among the sources (the front end only posts the request and renders the answer).
  "An objective = "all" request runs all four objectives and returns every
  successfully computed result plus a designation of the best one (by Sharpe ratio):
  objectives that fail are omitted from the result set, not treated as fatal to the
  request." The objectives bear the names of the request's \<^verbatim>\<open>optimization_goal\<close>; a
  solver answers an objective with a result or with an error.
\<close>

datatype objective = MaxSharpe | MinVolatility | RiskParity | MinCVaR

definition objectives :: "objective list" where
  "objectives = [MaxSharpe, MinVolatility, RiskParity, MinCVaR]"

fun objectiveName :: "objective \<Rightarrow> string" where
  "objectiveName MaxSharpe = ''max_sharpe''"
| "objectiveName MinVolatility = ''min_volatility''"
| "objectiveName RiskParity = ''risk_parity''"
| "objectiveName MinCVaR = ''min_cvar''"

record optimizationResult =
  r_tickers :: "string list"
  r_weights :: "real list"
  sharpe_ratio :: real

definition resultPortfolio :: "objective \<Rightarrow> optimizationResult \<Rightarrow> portfolio" where
  "resultPortfolio ob r =
     \<lparr>p_name = objectiveName ob, p_tickers = r_tickers r, p_weights = r_weights r,
      p_sharpe = Some (sharpe_ratio r)\<rparr>"

definition succeeded :: "(objective \<Rightarrow> string + optimizationResult) \<Rightarrow> objective \<Rightarrow> bool" where
  "succeeded solve ob = (case solve ob of Inr r \<Rightarrow> True | Inl e \<Rightarrow> False)"

text \<open>
  Modelled from the spec: the result set of the engine, which is not among the sources.
  It holds "every successfully computed result"; "objectives that fail are omitted".
\<close>

fun computed :: "(objective \<Rightarrow> string + optimizationResult) \<Rightarrow> objective list \<Rightarrow> portfolio list" where
  "computed solve [] = []"
| "computed solve (ob # obs) =
     (case solve ob of
        Inr r \<Rightarrow> resultPortfolio ob r # computed solve obs
      | Inl e \<Rightarrow> computed solve obs)"

text \<open>
  Modelled from the spec: the engine's "designation of the best one (by Sharpe ratio)",
  the first result of the greatest Sharpe ratio, named as the response names it.
\<close>

fun bestOf :: "portfolio \<Rightarrow> portfolio list \<Rightarrow> portfolio" where
  "bestOf b [] = b"
| "bestOf b (p # ps) = bestOf (if sharpeOf b < sharpeOf p then p else b) ps"

definition designate :: "portfolio list \<Rightarrow> string option" where
  "designate ps = (case ps of [] \<Rightarrow> None | p # qs \<Rightarrow> Some (p_name (bestOf p qs)))"

text \<open>
  Modelled from the spec: the engine's response to a request for all objectives, in the
  fields \<^verbatim>\<open>all_portfolios\<close> and \<^verbatim>\<open>best_portfolio\<close> that the front end reads.
\<close>

definition optimizeAll :: "(objective \<Rightarrow> string + optimizationResult) \<Rightarrow> data" where
  "optimizeAll solve =
     \<lparr>all_portfolios = Some (computed solve objectives),
      best_portfolio = designate (computed solve objectives)\<rparr>"

text \<open>A solver whose risk-parity run does not converge.\<close>

fun partlyFailing :: "objective \<Rightarrow> string + optimizationResult" where
  "partlyFailing MaxSharpe =
     Inr \<lparr>r_tickers = [''AAPL'', ''MSFT''], r_weights = [0.4, 0.6], sharpe_ratio = 1.2\<rparr>"
| "partlyFailing MinVolatility =
     Inr \<lparr>r_tickers = [''AAPL'', ''MSFT''], r_weights = [0.7, 0.3], sharpe_ratio = 0.9\<rparr>"
| "partlyFailing RiskParity = Inl ''no convergence''"
| "partlyFailing MinCVaR =
     Inr \<lparr>r_tickers = [''AAPL'', ''MSFT''], r_weights = [0.5, 0.5], sharpe_ratio = 1.5\<rparr>"

section \<open>The efficient frontier\<close>

text \<open>
  Modelled from the spec: the minimum-volatility solver with a target return and the
  frontier generator, which are not among the sources (\<^verbatim>\<open>showFrontier\<close> of the front
  end only raises an alert that the view is to come). The feasible region, the weight
  vectors that satisfy the constraint set, is a finite list of candidates; \<open>ret\<close> and
  \<open>vol\<close> give the expected return and the volatility of a candidate. The solver is
  exact: "minimize subject to the same constraints plus w.mu >= target_return", so it
  answers with a candidate of least volatility among those whose return reaches the
  target, and with nothing when the target is infeasible.
\<close>

fun leastVolatile :: "('w \<Rightarrow> real) \<Rightarrow> 'w \<Rightarrow> 'w list \<Rightarrow> 'w" where
  "leastVolatile vol b [] = b"
| "leastVolatile vol b (w # ws) = leastVolatile vol (if vol w < vol b then w else b) ws"

text \<open>
  Modelled from the spec: the minimum-volatility solver with the inequality on the
  target return, which is not among the sources; \<^const>\<open>None\<close> is its report that the
  target is infeasible.
\<close>

definition minimumVolatility ::
  "('w \<Rightarrow> real) \<Rightarrow> ('w \<Rightarrow> real) \<Rightarrow> 'w list \<Rightarrow> real \<Rightarrow> 'w option" where
  "minimumVolatility ret vol feasible target =
     (case filter (\<lambda>w. target \<le> ret w) feasible of
        [] \<Rightarrow> None
      | w # ws \<Rightarrow> Some (leastVolatile vol w ws))"

text \<open>
  Modelled from the spec: the sweep of the frontier generator, which is not among the
  sources. "Sweeps N target returns evenly spaced across that range, solving
  minimum-volatility with the additional constraint at each point. Output: ordered
  sequence of (target_return, achieved_volatility) pairs; points where the solver is
  infeasible are omitted, not zero-filled."
\<close>

fun sweep ::
  "('w \<Rightarrow> real) \<Rightarrow> ('w \<Rightarrow> real) \<Rightarrow> 'w list \<Rightarrow> real list \<Rightarrow> (real \<times> real) list" where
  "sweep ret vol feasible [] = []"
| "sweep ret vol feasible (t # ts) =
     (case minimumVolatility ret vol feasible t of
        None \<Rightarrow> sweep ret vol feasible ts
      | Some w \<Rightarrow> (t, vol w) # sweep ret vol feasible ts)"

text \<open>
  Modelled from the spec: the \<open>n\<close> targets "evenly spaced" from \<open>lo\<close> to \<open>hi\<close>; a
  single target is \<open>lo\<close>.
\<close>

definition targetReturns :: "real \<Rightarrow> real \<Rightarrow> nat \<Rightarrow> real list" where
  "targetReturns lo hi n =
     (if n = 1 then [lo]
      else map (\<lambda>i. lo + (hi - lo) * real i / real (n - 1)) [0..<n])"

text \<open>
  Modelled from the spec: the frontier generator, which is not among the sources.
  "Computes the minimum and maximum achievable expected return under the constraint
  set", the least and the greatest return of a candidate, "then sweeps N target
  returns evenly spaced across that range".
\<close>

definition efficientFrontier ::
  "('w \<Rightarrow> real) \<Rightarrow> ('w \<Rightarrow> real) \<Rightarrow> 'w list \<Rightarrow> nat \<Rightarrow> (real \<times> real) list" where
  "efficientFrontier ret vol feasible n =
     (case feasible of
        [] \<Rightarrow> []
      | w # ws \<Rightarrow>
          sweep ret vol feasible
            (targetReturns (fold min (map ret ws) (ret w)) (fold max (map ret ws) (ret w)) n))"

text \<open>
  Three candidate portfolios, as pairs of expected return and volatility, and targets
  of which the last is out of reach.
\<close>

definition threeCandidates :: "(real \<times> real) list" where
  "threeCandidates = [(0.05, 0.10), (0.08, 0.15), (0.12, 0.30)]"

section \<open>Uniqueness of tickers\<close>

lemma ticker_setField: "ticker (setField f v a) = ticker a"
  by (cases f) (simp_all add: setField_def)

lemma map_ticker_updateFirst:
  "(\<And>a. ticker (g a) = ticker a) \<Longrightarrow> map ticker (updateFirst t g as) = map ticker as"
  by (induction as) simp_all

lemma addAsset_present:
  "t \<in> set (map ticker (assets st)) \<Longrightarrow> addAsset t n s st = (Some AlreadyAdded, st)"
  by (auto simp: addAsset_def)

lemma addAsset_distinct:
  "distinct (map ticker (assets st)) \<Longrightarrow> distinct (map ticker (assets (snd (addAsset t n s st))))"
  by (auto simp: addAsset_def)

lemma removeAsset_distinct:
  "distinct (map ticker (assets st)) \<Longrightarrow> distinct (map ticker (assets (removeAsset t st)))"
  by (simp add: removeAsset_def distinct_map_filter)

lemma reachable_distinct: "reachable st \<Longrightarrow> distinct (map ticker (assets st))"
proof (induction rule: reachable.induct)
  case r_init
  show ?case by (simp add: initialState_def)
next
  case (r_add st t n s)
  from r_add.IH show ?case by (rule addAsset_distinct)
next
  case (r_remove st t)
  from r_remove.IH show ?case by (rule removeAsset_distinct)
next
  case (r_clear st c)
  then show ?case by (simp add: clearAllAssets_def)
next
  case (r_update st t f v)
  then show ?case by (simp add: updateAssetField_def map_ticker_updateFirst ticker_setField)
next
  case (r_weight st t v)
  then show ?case by (simp add: updateAssetWeight_def map_ticker_updateFirst)
next
  case (r_toggle st)
  then show ?case by (simp add: toggleManualWeights_def)
next
  case (r_result st d)
  then show ?case by simp
qed

text \<open>
  C10. The selected-asset list never holds two entries with the same ticker: every state
  the handlers reach has pairwise distinct tickers; \<^const>\<open>addAsset\<close> with a ticker that is
  already present raises the alert and leaves the state as it is; and \<^const>\<open>removeAsset\<close>
  keeps the remaining tickers distinct.
\<close>

theorem selected_tickers_unique:
  "(reachable st \<longrightarrow> distinct (map ticker (assets st))) \<and>
   (t \<in> set (map ticker (assets st)) \<longrightarrow> addAsset t n s st = (Some AlreadyAdded, st)) \<and>
   (distinct (map ticker (assets st)) \<longrightarrow>
      distinct (map ticker (assets (removeAsset t' st))) \<and>
      distinct (map ticker (assets (snd (addAsset t n s st)))))"
  using reachable_distinct addAsset_present addAsset_distinct removeAsset_distinct by blast


theorem selected_tickers_unique_witness:
  "reachable (snd (addAsset ''AAPL'' ''Apple'' ''Tech'' initialState)) \<and>
   distinct (map ticker (assets (snd (addAsset ''AAPL'' ''Apple'' ''Tech'' initialState)))) \<and>
   ''AAPL'' \<in> set (map ticker (assets (snd (addAsset ''AAPL'' ''Apple'' ''Tech'' initialState)))) \<and>
   addAsset ''AAPL'' ''Apple Inc'' ''IT'' (snd (addAsset ''AAPL'' ''Apple'' ''Tech'' initialState))
     = (Some AlreadyAdded, snd (addAsset ''AAPL'' ''Apple'' ''Tech'' initialState)) \<and>
   distinct (map ticker (assets (removeAsset ''MSFT''
      (snd (addAsset ''AAPL'' ''Apple'' ''Tech'' initialState)))))"
proof -
  have r: "reachable (snd (addAsset ''AAPL'' ''Apple'' ''Tech'' initialState))"
    by (rule r_add [OF r_init])
  have m: "''AAPL'' \<in> set (map ticker (assets (snd (addAsset ''AAPL'' ''Apple'' ''Tech'' initialState))))"
    by (simp add: addAsset_def initialState_def)
  from selected_tickers_unique
         [of "snd (addAsset ''AAPL'' ''Apple'' ''Tech'' initialState)" "''AAPL''"
             "''Apple Inc''" "''IT''" "''MSFT''"] r m
  show ?thesis by blast
qed

section \<open>What a run of the optimization posts\<close>

lemma posts_submit: "posts (fst (submit server b pg)) =
   [buildOptimizationPayload (assets (dashboard pg)) (paramsOf b pg) (Some (levelOf pg)) (knowledgeLevel pg)]"
  by (simp add: submit_def Let_def split: sum.splits)

lemma rfr_build: "risk_free_rate (buildOptimizationPayload as (paramsOf b pg) l al) =
   map_option (\<lambda>r. r / 100) (inp_riskFreeRate (inputs pg))"
  by (simp add: buildOptimizationPayload_def paramsOf_def Let_def)

lemma posts_runOptimize:
  "q \<in> set (posts (fst (runOptimize add server pg))) \<Longrightarrow>
     validateForm add pg = None \<and>
     q = buildOptimizationPayload (assets (dashboard pg)) (paramsOf (inp_budget (inputs pg)) pg)
           (Some (levelOf pg)) (knowledgeLevel pg)"
  by (auto simp: runOptimize_def posts_submit split: option.splits)

lemma posts_runOptimize_v6:
  "q \<in> set (posts (fst (runOptimize_v6 add server pg))) \<Longrightarrow>
     validateForm_v6 add pg = None \<and>
     q = buildOptimizationPayload (assets (dashboard pg)) (paramsOf (Some 999999999) pg)
           (Some (levelOf pg)) (knowledgeLevel pg)"
  by (auto simp: runOptimize_v6_def posts_submit split: option.splits)

lemma posts_runOptimize_v2:
  "q \<in> set (posts (runOptimize_v2 server pg)) \<Longrightarrow>
     2 \<le> length (assets (dashboard pg)) \<and> q = payloadOf_v2 pg"
  by (auto simp: runOptimize_v2_def split: if_splits sum.splits)

lemma posts_optimize:
  "q \<in> set (posts (optimize server pg)) \<Longrightarrow>
     2 \<le> length (assets (dashboard pg)) \<and> q = payloadOf_v1 pg"
  by (auto simp: optimize_def split: if_splits sum.splits)

section \<open>Fewer than two assets\<close>

text \<open>
  C3. A request with fewer than two assets is rejected by validation before anything is
  computed: in each of the four generations of the page the handler only raises the
  alert, posts nothing to the server, renders no result and leaves the state as it is.
\<close>

theorem too_few_assets_rejected:
  "length (assets (dashboard pg)) < 2 \<Longrightarrow>
     validateForm add pg = Some TooFewAssets \<and>
     validateForm_v6 add pg = Some TooFewAssets \<and>
     runOptimize add server pg = ([Alert TooFewAssets], pg) \<and>
     runOptimize_v6 add server pg = ([Alert TooFewAssets], pg) \<and>
     runOptimize_v2 server2 pg = [Alert TooFewAssets] \<and>
     optimize server1 pg = [Alert TooFewAssets] \<and>
     posts (fst (runOptimize add server pg)) = [] \<and> renders (fst (runOptimize add server pg)) = [] \<and>
     posts (fst (runOptimize_v6 add server pg)) = [] \<and> renders (fst (runOptimize_v6 add server pg)) = [] \<and>
     posts (runOptimize_v2 server2 pg) = [] \<and> renders (runOptimize_v2 server2 pg) = [] \<and>
     posts (optimize server1 pg) = [] \<and> renders (optimize server1 pg) = []"
  by (simp add: runOptimize_def runOptimize_v6_def runOptimize_v2_def optimize_def
      validateForm_def validateForm_v6_def)

theorem too_few_assets_rejected_witness:
  "length (assets (dashboard (examplePage (Some ''professional'') False [holding ''AAPL'' 10]))) < 2 \<and>
   runOptimize (+) offline (examplePage (Some ''professional'') False [holding ''AAPL'' 10])
     = ([Alert TooFewAssets], examplePage (Some ''professional'') False [holding ''AAPL'' 10]) \<and>
   runOptimize_v6 (+) offline (examplePage (Some ''professional'') False [holding ''AAPL'' 10])
     = ([Alert TooFewAssets], examplePage (Some ''professional'') False [holding ''AAPL'' 10]) \<and>
   runOptimize_v2 (offline :: payload_v2 \<Rightarrow> string + data)
      (examplePage (Some ''professional'') False [holding ''AAPL'' 10]) = [Alert TooFewAssets] \<and>
   optimize (offline :: payload_v1 \<Rightarrow> string + data)
      (examplePage (Some ''professional'') False [holding ''AAPL'' 10]) = [Alert TooFewAssets]"
proof -
  have h: "length (assets (dashboard (examplePage (Some ''professional'') False [holding ''AAPL'' 10]))) < 2"
    by (simp add: examplePage_def)
  from too_few_assets_rejected
         [OF h, of "(+)" offline "offline :: payload_v2 \<Rightarrow> string + data"
                   "offline :: payload_v1 \<Rightarrow> string + data"] h
  show ?thesis by simp
qed

text \<open>The example page with two holdings passes both validations.\<close>

lemma validate_example:
  "validateForm (+) (examplePage (Some ''beginner'') False [holding ''AAPL'' 10, holding ''MSFT'' 5]) = None"
  by (simp add: validateForm_def examplePage_def holding_def truthy_def exampleForm_def checkPro_def isPro_def)

lemma validate_example_v6:
  "validateForm_v6 (+) (examplePage (Some ''beginner'') False [holding ''AAPL'' 10, holding ''MSFT'' 5]) = None"
  by (simp add: validateForm_v6_def examplePage_def holding_def truthy_def exampleForm_def checkPro_def isPro_def)

section \<open>The unit of the risk-free rate\<close>

text \<open>
  C4. The risk-free rate reaches the engine as a fraction per year: in every payload that
  any of the four handlers posts, the field is the percentage of the form divided by 100,
  once (an input of 2 is sent as 0.02). \<^const>\<open>buildOptimizationPayload\<close> passes the value
  of its parameter on as it is.
\<close>

theorem risk_free_rate_fraction:
  "(\<forall>q \<in> set (posts (fst (runOptimize add server pg))).
      risk_free_rate q = map_option (\<lambda>r. r / 100) (inp_riskFreeRate (inputs pg))) \<and>
   (\<forall>q \<in> set (posts (fst (runOptimize_v6 add server pg))).
      risk_free_rate q = map_option (\<lambda>r. r / 100) (inp_riskFreeRate (inputs pg))) \<and>
   (\<forall>q \<in> set (posts (runOptimize_v2 server2 pg)).
      v2_risk_free_rate q = map_option (\<lambda>r. r / 100) (inp_riskFreeRate (inputs pg))) \<and>
   (\<forall>q \<in> set (posts (optimize server1 pg)).
      v1_risk_free_rate q = map_option (\<lambda>r. r / 100) (inp_riskFreeRate (inputs pg)))"
proof (intro conjI ballI)
  fix q assume "q \<in> set (posts (fst (runOptimize add server pg)))"
  then show "risk_free_rate q = map_option (\<lambda>r. r / 100) (inp_riskFreeRate (inputs pg))"
    by (auto dest!: posts_runOptimize simp: rfr_build)
next
  fix q assume "q \<in> set (posts (fst (runOptimize_v6 add server pg)))"
  then show "risk_free_rate q = map_option (\<lambda>r. r / 100) (inp_riskFreeRate (inputs pg))"
    by (auto dest!: posts_runOptimize_v6 simp: rfr_build)
next
  fix q assume "q \<in> set (posts (runOptimize_v2 server2 pg))"
  then show "v2_risk_free_rate q = map_option (\<lambda>r. r / 100) (inp_riskFreeRate (inputs pg))"
    by (auto dest!: posts_runOptimize_v2 simp: payloadOf_v2_def)
next
  fix q assume "q \<in> set (posts (optimize server1 pg))"
  then show "v1_risk_free_rate q = map_option (\<lambda>r. r / 100) (inp_riskFreeRate (inputs pg))"
    by (auto dest!: posts_optimize simp: payloadOf_v1_def)
qed

theorem risk_free_rate_fraction_witness:
  "inp_riskFreeRate (inputs (examplePage (Some ''beginner'') False [holding ''AAPL'' 10, holding ''MSFT'' 5])) = Some 2 \<and>
   map risk_free_rate (posts (fst (runOptimize (+) offline
      (examplePage (Some ''beginner'') False [holding ''AAPL'' 10, holding ''MSFT'' 5])))) = [Some 0.02] \<and>
   map risk_free_rate (posts (fst (runOptimize_v6 (+) offline
      (examplePage (Some ''beginner'') False [holding ''AAPL'' 10, holding ''MSFT'' 5])))) = [Some 0.02] \<and>
   map v2_risk_free_rate (posts (runOptimize_v2 (offline :: payload_v2 \<Rightarrow> string + data)
      (examplePage (Some ''beginner'') False [holding ''AAPL'' 10, holding ''MSFT'' 5]))) = [Some 0.02] \<and>
   map v1_risk_free_rate (posts (optimize (offline :: payload_v1 \<Rightarrow> string + data)
      (examplePage (Some ''beginner'') False [holding ''AAPL'' 10, holding ''MSFT'' 5]))) = [Some 0.02]"
proof -
  let ?pg = "examplePage (Some ''beginner'') False [holding ''AAPL'' 10, holding ''MSFT'' 5]"
  have r: "inp_riskFreeRate (inputs ?pg) = Some 2"
    by (simp add: examplePage_def exampleForm_def)
  have p1: "\<exists>q. posts (fst (runOptimize (+) offline ?pg)) = [q]"
    by (simp add: runOptimize_def validate_example posts_submit)
  have p6: "\<exists>q. posts (fst (runOptimize_v6 (+) offline ?pg)) = [q]"
    by (simp add: runOptimize_v6_def validate_example_v6 posts_submit)
  have p2: "\<exists>q. posts (runOptimize_v2 (offline :: payload_v2 \<Rightarrow> string + data) ?pg) = [q]"
    by (simp add: runOptimize_v2_def examplePage_def offline_def)
  have p0: "\<exists>q. posts (optimize (offline :: payload_v1 \<Rightarrow> string + data) ?pg) = [q]"
    by (simp add: optimize_def examplePage_def offline_def)
  from risk_free_rate_fraction
         [of "(+)" offline ?pg "offline :: payload_v2 \<Rightarrow> string + data"
             "offline :: payload_v1 \<Rightarrow> string + data"] r p1 p6 p2 p0
  show ?thesis by auto
qed

section \<open>Fixed weights in the payload\<close>

lemma manual_weights_build:
  "manual_weights (buildOptimizationPayload as ps l al) =
     (case isManualWeights_param ps of Some b \<Rightarrow> b | None \<Rightarrow> False)"
  by (simp add: buildOptimizationPayload_def Let_def)

lemma pl_assets_build:
  "pl_assets (buildOptimizationPayload as ps l al) =
     map (entryOf (manual_weights (buildOptimizationPayload as ps l al))) as"
  by (simp add: buildOptimizationPayload_def Let_def)

lemma e_weight_entryOf:
  "e_weight (entryOf manual a) = Some w \<longleftrightarrow> manual \<and> (\<exists>x. weight a = Some x \<and> x \<noteq> 0 \<and> w = x / 100)"
  by (auto simp: entryOf_def truthy_def split: option.splits)

lemma e_weight_entryOf_v2:
  "e_weight (entryOf_v2 manual a) = Some w \<longleftrightarrow> manual \<and> (\<exists>x. weight a = Some x \<and> x \<noteq> 0 \<and> w = x / 100)"
  by (auto simp: entryOf_v2_def truthy_def split: option.splits)

text \<open>
  C5. The payload carries a fixed weight for an asset only in manual mode, and it is the
  entered weight divided by 100; when \<^verbatim>\<open>manual_weights\<close> is false the weight of every
  asset of the payload is \<^verbatim>\<open>null\<close>. This holds for the payload that
  \<^const>\<open>buildOptimizationPayload\<close> builds and for the one of the second generation.
\<close>

theorem fixed_weight_only_when_manual:
  "(\<not> manual_weights (buildOptimizationPayload as ps l al) \<longrightarrow>
      (\<forall>e \<in> set (pl_assets (buildOptimizationPayload as ps l al)). e_weight e = None)) \<and>
   length (pl_assets (buildOptimizationPayload as ps l al)) = length as \<and>
   (\<forall>i < length as. \<forall>w. e_weight (pl_assets (buildOptimizationPayload as ps l al) ! i) = Some w \<longrightarrow>
      manual_weights (buildOptimizationPayload as ps l al) \<and>
      (\<exists>x. weight (as ! i) = Some x \<and> w = x / 100)) \<and>
   (\<not> v2_manual_weights (payloadOf_v2 pg) \<longrightarrow>
      (\<forall>e \<in> set (v2_assets (payloadOf_v2 pg)). e_weight e = None)) \<and>
   length (v2_assets (payloadOf_v2 pg)) = length (assets (dashboard pg)) \<and>
   (\<forall>i < length (assets (dashboard pg)). \<forall>w. e_weight (v2_assets (payloadOf_v2 pg) ! i) = Some w \<longrightarrow>
      v2_manual_weights (payloadOf_v2 pg) \<and>
      (\<exists>x. weight (assets (dashboard pg) ! i) = Some x \<and> w = x / 100))"
proof (intro conjI)
  show "\<not> manual_weights (buildOptimizationPayload as ps l al) \<longrightarrow>
      (\<forall>e \<in> set (pl_assets (buildOptimizationPayload as ps l al)). e_weight e = None)"
    by (auto simp: pl_assets_build entryOf_def)
  show "length (pl_assets (buildOptimizationPayload as ps l al)) = length as"
    by (simp add: pl_assets_build)
  show "\<forall>i < length as. \<forall>w. e_weight (pl_assets (buildOptimizationPayload as ps l al) ! i) = Some w \<longrightarrow>
      manual_weights (buildOptimizationPayload as ps l al) \<and>
      (\<exists>x. weight (as ! i) = Some x \<and> w = x / 100)"
    by (auto simp: pl_assets_build e_weight_entryOf)
  show "\<not> v2_manual_weights (payloadOf_v2 pg) \<longrightarrow>
      (\<forall>e \<in> set (v2_assets (payloadOf_v2 pg)). e_weight e = None)"
    by (auto simp: payloadOf_v2_def entryOf_v2_def)
  show "length (v2_assets (payloadOf_v2 pg)) = length (assets (dashboard pg))"
    by (simp add: payloadOf_v2_def)
  show "\<forall>i < length (assets (dashboard pg)). \<forall>w. e_weight (v2_assets (payloadOf_v2 pg) ! i) = Some w \<longrightarrow>
      v2_manual_weights (payloadOf_v2 pg) \<and>
      (\<exists>x. weight (assets (dashboard pg) ! i) = Some x \<and> w = x / 100)"
    by (auto simp: payloadOf_v2_def e_weight_entryOf_v2)
qed

lemma build_weights_example:
  "map e_weight (pl_assets (buildOptimizationPayload
       [weighted ''AAPL'' (Some 60), weighted ''MSFT'' (Some 0), weighted ''KO'' None]
       (manualParams m) None None)) = (if m then [Some 0.6, None, None] else [None, None, None])"
  by (simp add: buildOptimizationPayload_def manualParams_def weighted_def holding_def
      entryOf_def truthy_def)

lemma v2_weights_example:
  "map e_weight (v2_assets (payloadOf_v2 (examplePage None m
       [weighted ''AAPL'' (Some 60), weighted ''MSFT'' (Some 0), weighted ''KO'' None])))
     = (if m then [Some 0.6, None, None] else [None, None, None])"
  by (simp add: payloadOf_v2_def examplePage_def weighted_def holding_def
      entryOf_v2_def truthy_def)

theorem fixed_weight_only_when_manual_witness:
  "\<not> manual_weights (buildOptimizationPayload
       [weighted ''AAPL'' (Some 60), weighted ''MSFT'' (Some 0), weighted ''KO'' None]
       (manualParams False) None None) \<and>
   map e_weight (pl_assets (buildOptimizationPayload
       [weighted ''AAPL'' (Some 60), weighted ''MSFT'' (Some 0), weighted ''KO'' None]
       (manualParams False) None None)) = [None, None, None] \<and>
   e_weight (pl_assets (buildOptimizationPayload
       [weighted ''AAPL'' (Some 60), weighted ''MSFT'' (Some 0), weighted ''KO'' None]
       (manualParams True) None None) ! 0) = Some 0.6 \<and>
   manual_weights (buildOptimizationPayload
       [weighted ''AAPL'' (Some 60), weighted ''MSFT'' (Some 0), weighted ''KO'' None]
       (manualParams True) None None) \<and>
   weight ([weighted ''AAPL'' (Some 60), weighted ''MSFT'' (Some 0), weighted ''KO'' None] ! 0)
     = Some 60 \<and>
   e_weight (v2_assets (payloadOf_v2 (examplePage None True
       [weighted ''AAPL'' (Some 60), weighted ''MSFT'' (Some 0), weighted ''KO'' None])) ! 0)
     = Some 0.6 \<and>
   v2_manual_weights (payloadOf_v2 (examplePage None True
       [weighted ''AAPL'' (Some 60), weighted ''MSFT'' (Some 0), weighted ''KO'' None]))"
proof -
  let ?as = "[weighted ''AAPL'' (Some 60), weighted ''MSFT'' (Some 0), weighted ''KO'' None]"
  have off: "\<not> manual_weights (buildOptimizationPayload ?as (manualParams False) None None)"
    by (simp add: manual_weights_build manualParams_def)
  have e0: "e_weight (pl_assets (buildOptimizationPayload ?as (manualParams True) None None) ! 0)
              = Some 0.6"
    by (simp add: buildOptimizationPayload_def manualParams_def weighted_def holding_def
        entryOf_def truthy_def)
  have v0: "e_weight (v2_assets (payloadOf_v2 (examplePage None True ?as)) ! 0) = Some 0.6"
    by (simp add: payloadOf_v2_def examplePage_def weighted_def holding_def
        entryOf_v2_def truthy_def)
  have w0: "weight (?as ! 0) = Some 60"
    by (simp add: weighted_def)
  have len: "(0::nat) < length ?as" "0 < length (assets (dashboard (examplePage None True ?as)))"
    by (simp_all add: examplePage_def)
  from fixed_weight_only_when_manual
         [of ?as "manualParams False" None None "examplePage None True ?as"]
       off build_weights_example [of False]
  have a: "map e_weight (pl_assets (buildOptimizationPayload ?as (manualParams False) None None))
             = [None, None, None]"
    by simp
  from fixed_weight_only_when_manual
         [of ?as "manualParams True" None None "examplePage None True ?as"] e0 v0 len
  have b: "manual_weights (buildOptimizationPayload ?as (manualParams True) None None) \<and>
           v2_manual_weights (payloadOf_v2 (examplePage None True ?as))"
    by blast
  from off a e0 b w0 v0 show ?thesis by blast
qed

lemma e_weight_entryOf_None:
  "(e_weight (entryOf manual a) \<noteq> None) = (manual \<and> weight a \<noteq> None \<and> weight a \<noteq> Some 0)"
  by (cases "weight a") (simp_all add: entryOf_def truthy_def del: not_None_eq)

lemma e_weight_entryOf_v2_None:
  "(e_weight (entryOf_v2 manual a) \<noteq> None) = (manual \<and> weight a \<noteq> None \<and> weight a \<noteq> Some 0)"
  by (cases "weight a") (simp_all add: entryOf_v2_def truthy_def del: not_None_eq)

lemma v2_assets_payloadOf:
  "v2_assets (payloadOf_v2 pg) =
     map (entryOf_v2 (v2_manual_weights (payloadOf_v2 pg))) (assets (dashboard pg))"
  by (simp add: payloadOf_v2_def)

text \<open>
  C9. An asset of the payload has a weight other than \<^verbatim>\<open>null\<close> exactly when manual
  mode is on and the entered weight is neither unset nor zero: in manual mode a weight of
  zero is sent as \<^verbatim>\<open>null\<close>, as "not fixed".
\<close>

theorem zero_weight_is_not_fixed:
  "(\<forall>i < length as.
      (e_weight (pl_assets (buildOptimizationPayload as ps l al) ! i) \<noteq> None) =
      (manual_weights (buildOptimizationPayload as ps l al) \<and>
       weight (as ! i) \<noteq> None \<and> weight (as ! i) \<noteq> Some 0)) \<and>
   (\<forall>i < length (assets (dashboard pg)).
      (e_weight (v2_assets (payloadOf_v2 pg) ! i) \<noteq> None) =
      (v2_manual_weights (payloadOf_v2 pg) \<and>
       weight (assets (dashboard pg) ! i) \<noteq> None \<and> weight (assets (dashboard pg) ! i) \<noteq> Some 0))"
proof (intro conjI allI impI)
  fix i assume "i < length as"
  then show "(e_weight (pl_assets (buildOptimizationPayload as ps l al) ! i) \<noteq> None) =
      (manual_weights (buildOptimizationPayload as ps l al) \<and>
       weight (as ! i) \<noteq> None \<and> weight (as ! i) \<noteq> Some 0)"
    by (simp only: pl_assets_build [of as ps l al] nth_map e_weight_entryOf_None)
next
  fix i assume "i < length (assets (dashboard pg))"
  then show "(e_weight (v2_assets (payloadOf_v2 pg) ! i) \<noteq> None) =
      (v2_manual_weights (payloadOf_v2 pg) \<and>
       weight (assets (dashboard pg) ! i) \<noteq> None \<and> weight (assets (dashboard pg) ! i) \<noteq> Some 0)"
    by (simp only: v2_assets_payloadOf [of pg] nth_map e_weight_entryOf_v2_None)
qed

theorem zero_weight_is_not_fixed_witness:
  "manual_weights (buildOptimizationPayload
       [weighted ''AAPL'' (Some 60), weighted ''MSFT'' (Some 0), weighted ''KO'' None]
       (manualParams True) None None) \<and>
   weight ([weighted ''AAPL'' (Some 60), weighted ''MSFT'' (Some 0), weighted ''KO'' None] ! 1)
     = Some 0 \<and>
   e_weight (pl_assets (buildOptimizationPayload
       [weighted ''AAPL'' (Some 60), weighted ''MSFT'' (Some 0), weighted ''KO'' None]
       (manualParams True) None None) ! 1) = None \<and>
   e_weight (pl_assets (buildOptimizationPayload
       [weighted ''AAPL'' (Some 60), weighted ''MSFT'' (Some 0), weighted ''KO'' None]
       (manualParams True) None None) ! 2) = None \<and>
   e_weight (pl_assets (buildOptimizationPayload
       [weighted ''AAPL'' (Some 60), weighted ''MSFT'' (Some 0), weighted ''KO'' None]
       (manualParams True) None None) ! 0) \<noteq> None \<and>
   e_weight (v2_assets (payloadOf_v2 (examplePage None True
       [weighted ''AAPL'' (Some 60), weighted ''MSFT'' (Some 0), weighted ''KO'' None])) ! 1) = None"
proof -
  let ?as = "[weighted ''AAPL'' (Some 60), weighted ''MSFT'' (Some 0), weighted ''KO'' None]"
  have on: "manual_weights (buildOptimizationPayload ?as (manualParams True) None None)"
    by (simp add: manual_weights_build manualParams_def)
  have w: "weight (?as ! 0) = Some 60" "weight (?as ! 1) = Some 0" "weight (?as ! 2) = None"
          "weight (assets (dashboard (examplePage None True ?as)) ! 1) = Some 0"
    by (simp_all add: weighted_def examplePage_def)
  have len: "0 < length ?as" "1 < length ?as" "2 < length ?as"
            "1 < length (assets (dashboard (examplePage None True ?as)))"
    by (simp_all add: examplePage_def)
  note t = zero_weight_is_not_fixed
             [of ?as "manualParams True" None None "examplePage None True ?as"]
  note t3 = t [THEN conjunct1, rule_format]
  note t2 = t [THEN conjunct2, rule_format]
  from t3 [OF len(1)] w(1) on
  have e0: "e_weight (pl_assets (buildOptimizationPayload ?as (manualParams True) None None) ! 0) \<noteq> None"
    by simp
  from t3 [OF len(2)] w(2)
  have e1: "e_weight (pl_assets (buildOptimizationPayload ?as (manualParams True) None None) ! 1) = None"
    by simp
  from t3 [OF len(3)] w(3)
  have e2: "e_weight (pl_assets (buildOptimizationPayload ?as (manualParams True) None None) ! 2) = None"
    by simp
  from t2 [OF len(4)] w(4)
  have v1: "e_weight (v2_assets (payloadOf_v2 (examplePage None True ?as)) ! 1) = None"
    by simp
  from on w(2) e1 e2 e0 v1 show ?thesis by (intro conjI)
qed

section \<open>The checks on the bounds\<close>

lemma checkLimits_Inr:
  "checkLimits add t as = Inr t' \<Longrightarrow>
     t' = foldl (\<lambda>totalMin a. case minWeight a of Some m \<Rightarrow> add totalMin m | None \<Rightarrow> totalMin) t as \<and>
     (\<forall>a \<in> set as. \<forall>mn mx. minWeight a = Some mn \<longrightarrow> maxWeight a = Some mx \<longrightarrow> mn \<le> mx)"
proof (induction as arbitrary: t)
  case Nil
  then show ?case by simp
next
  case (Cons a as)
  show ?case
  proof (cases "minWeight a")
    case None
    with Cons.prems have "checkLimits add t as = Inr t'" by simp
    from Cons.IH [OF this] None show ?thesis by simp
  next
    case (Some mn)
    show ?thesis
    proof (cases "maxWeight a")
      case None
      with Some Cons.prems have "checkLimits add (add t mn) as = Inr t'" by simp
      from Cons.IH [OF this] Some None show ?thesis by simp
    next
      case (Some mx)
      with \<open>minWeight a = Some mn\<close> Cons.prems
      have le: "mn \<le> mx" and rest: "checkLimits add (add t mn) as = Inr t'"
        by (auto split: if_splits)
      from Cons.IH [OF rest] \<open>minWeight a = Some mn\<close> Some le show ?thesis by simp
    qed
  qed
qed

lemma checkLimits_total:
  "checkLimits add 0 as = Inr t \<Longrightarrow> t = totalMinOf add as"
  by (simp add: totalMinOf_def checkLimits_Inr)

lemma checkLimits_Inl:
  "a \<in> set as \<Longrightarrow> minWeight a = Some mn \<Longrightarrow> maxWeight a = Some mx \<Longrightarrow> mn > mx \<Longrightarrow>
     \<exists>m. checkLimits add t as = Inl m"
proof (induction as arbitrary: t)
  case Nil
  then show ?case by simp
next
  case (Cons b bs)
  then show ?case
    by (cases "minWeight b"; cases "maxWeight b") (auto simp: Let_def)
qed

lemma checkPro_total:
  "isPro pg \<Longrightarrow> 100 < totalMinOf add (assets (dashboard pg)) \<Longrightarrow> \<exists>m. checkPro add pg = Some m"
  by (cases "checkLimits add 0 (assets (dashboard pg))")
     (auto simp: checkPro_def dest!: checkLimits_total)

lemma checkPro_conflict:
  "isPro pg \<Longrightarrow> a \<in> set (assets (dashboard pg)) \<Longrightarrow> minWeight a = Some mn \<Longrightarrow>
     maxWeight a = Some mx \<Longrightarrow> mn > mx \<Longrightarrow> \<exists>m. checkPro add pg = Some m"
  using checkLimits_Inl [of a "assets (dashboard pg)" mn mx add 0]
  by (auto simp: checkPro_def)

lemma validateForm_checkPro:
  "checkPro add pg = Some m \<Longrightarrow> \<exists>err. validateForm add pg = Some err"
  by (auto simp: validateForm_def split: option.splits)

lemma validateForm_v6_checkPro:
  "checkPro add pg = Some m \<Longrightarrow> \<exists>err. validateForm_v6 add pg = Some err"
  by (auto simp: validateForm_v6_def split: option.splits)

lemma validateForm_None: "validateForm add pg = None \<Longrightarrow> checkPro add pg = None"
  by (auto simp: validateForm_def split: option.splits if_splits)

lemma validateForm_v6_None: "validateForm_v6 add pg = None \<Longrightarrow> checkPro add pg = None"
  by (auto simp: validateForm_v6_def split: option.splits if_splits)

lemma runOptimize_rejected:
  "validateForm add pg = Some err \<Longrightarrow> runOptimize add server pg = ([Alert err], pg)"
  by (simp add: runOptimize_def)

lemma runOptimize_v6_rejected:
  "validateForm_v6 add pg = Some err \<Longrightarrow> runOptimize_v6 add server pg = ([Alert err], pg)"
  by (simp add: runOptimize_v6_def)

text \<open>
  C2, at the professional level and for the total that the page computes. A request of
  that level for which \<^verbatim>\<open>totalMin\<close>, the total of the entered minimum percentages as
  \<^verbatim>\<open>validateForm\<close> adds them up, exceeds 100 is rejected by validation before anything
  is sent: both generations of \<^verbatim>\<open>validateForm\<close> return a message, the handler raises it
  as an alert, posts nothing and leaves the page as it is. When the loop over the bounds
  finds no asset whose minimum exceeds its maximum, the message is the one about the
  total. This holds whatever the addition rounds to. The checks stand under
  \<^verbatim>\<open>if (isPro)\<close>: at the beginner level they are not made.
\<close>

theorem min_sum_rejected_for_professionals:
  "isPro pg \<Longrightarrow> 100 < totalMinOf add (assets (dashboard pg)) \<Longrightarrow>
     (\<exists>err. validateForm add pg = Some err \<and> runOptimize add server pg = ([Alert err], pg)) \<and>
     (\<exists>err. validateForm_v6 add pg = Some err \<and> runOptimize_v6 add server pg = ([Alert err], pg)) \<and>
     posts (fst (runOptimize add server pg)) = [] \<and>
     posts (fst (runOptimize_v6 add server pg)) = [] \<and>
     (\<forall>t. checkLimits add 0 (assets (dashboard pg)) = Inr t \<longrightarrow>
        t = totalMinOf add (assets (dashboard pg)) \<and>
        checkPro add pg = Some (MinSumAbove100 t))"
proof -
  assume pro: "isPro pg" and big: "100 < totalMinOf add (assets (dashboard pg))"
  from checkPro_total [OF pro big] obtain m where m: "checkPro add pg = Some m" ..
  from validateForm_checkPro [OF m] obtain e where e: "validateForm add pg = Some e" ..
  from validateForm_v6_checkPro [OF m] obtain e6 where e6: "validateForm_v6 add pg = Some e6" ..
  have last: "\<forall>t. checkLimits add 0 (assets (dashboard pg)) = Inr t \<longrightarrow>
        t = totalMinOf add (assets (dashboard pg)) \<and>
        checkPro add pg = Some (MinSumAbove100 t)"
    using pro big by (auto simp: checkPro_def dest!: checkLimits_total)
  from e e6 last show ?thesis
    by (simp add: runOptimize_rejected runOptimize_v6_rejected)
qed

text \<open>
  The totals of the example with minimums 60 and 60. The sum of these two doubles is
  exact, so that the exact addition stands for the addition of doubles there.
\<close>

lemma totalMinOf_example:
  "totalMinOf (+) [bounded ''AAPL'' (Some 60) None, bounded ''MSFT'' (Some 60) None] = 120"
  by (simp add: totalMinOf_def bounded_def)

lemma totalMinWeight_example:
  "totalMinWeight [bounded ''AAPL'' (Some 60) None, bounded ''MSFT'' (Some 60) None] = 1.2"
  by (simp add: totalMinWeight_def bounded_def)

lemma limitsOf_eq:
  "limitsOf a =
     (if minWeight a = None \<and> maxWeight a = None then None
      else Some \<lparr>lim_min = (case minWeight a of Some m \<Rightarrow> m / 100 | None \<Rightarrow> 0),
                 lim_max = (case maxWeight a of Some m \<Rightarrow> m / 100 | None \<Rightarrow> 1)\<rparr>)"
  by (cases "minWeight a"; cases "maxWeight a") (simp_all add: limitsOf_def del: not_None_eq)

lemma allocation_limits_example:
  "allocation_limits (buildOptimizationPayload [bounded s mn mx, bounded t mn' mx'] ps l al) =
     (if mn = None \<and> mx = None \<and> mn' = None \<and> mx' = None then None
      else Some (allocationLimits Map.empty [bounded s mn mx, bounded t mn' mx']))"
  by (simp add: buildOptimizationPayload_def Let_def hasAnyLimit_def limitsOf_eq bounded_def)

lemma posts_example:
  "validateForm (+) (examplePage lv mw as) = None \<Longrightarrow>
     posts (fst (runOptimize (+) offline (examplePage lv mw as))) =
       [buildOptimizationPayload as (paramsOf (Some 10000) (examplePage lv mw as))
          (Some (levelOf (examplePage lv mw as))) lv]"
  by (simp add: runOptimize_def posts_submit) (simp add: examplePage_def exampleForm_def)

lemma posts_example_v6:
  "validateForm_v6 (+) (examplePage lv mw as) = None \<Longrightarrow>
     posts (fst (runOptimize_v6 (+) offline (examplePage lv mw as))) =
       [buildOptimizationPayload as (paramsOf (Some 999999999) (examplePage lv mw as))
          (Some (levelOf (examplePage lv mw as))) lv]"
  by (simp add: runOptimize_v6_def posts_submit) (simp add: examplePage_def)

lemma validate_bounded_beginner:
  "validateForm (+) (examplePage (Some ''beginner'') mw [bounded s mn mx, bounded t mn' mx']) = None"
  "validateForm_v6 (+) (examplePage (Some ''beginner'') mw [bounded s mn mx, bounded t mn' mx']) = None"
  by (simp_all add: validateForm_def validateForm_v6_def checkPro_def isPro_def examplePage_def
      bounded_def holding_def exampleForm_def truthy_def)

theorem min_sum_rejected_for_professionals_witness:
  "isPro (examplePage (Some ''professional'') False
      [bounded ''AAPL'' (Some 60) None, bounded ''MSFT'' (Some 60) None]) \<and>
   totalMinOf (+) (assets (dashboard (examplePage (Some ''professional'') False
      [bounded ''AAPL'' (Some 60) None, bounded ''MSFT'' (Some 60) None]))) = 120 \<and>
   checkPro (+) (examplePage (Some ''professional'') False
      [bounded ''AAPL'' (Some 60) None, bounded ''MSFT'' (Some 60) None])
     = Some (MinSumAbove100 120) \<and>
   posts (fst (runOptimize (+) offline (examplePage (Some ''professional'') False
      [bounded ''AAPL'' (Some 60) None, bounded ''MSFT'' (Some 60) None]))) = [] \<and>
   posts (fst (runOptimize_v6 (+) offline (examplePage (Some ''professional'') False
      [bounded ''AAPL'' (Some 60) None, bounded ''MSFT'' (Some 60) None]))) = []"
proof -
  let ?pg = "examplePage (Some ''professional'') False
      [bounded ''AAPL'' (Some 60) None, bounded ''MSFT'' (Some 60) None]"
  have pro: "isPro ?pg"
    by (simp add: isPro_def examplePage_def)
  have tot: "totalMinOf (+) (assets (dashboard ?pg)) = 120"
    by (simp add: examplePage_def totalMinOf_example)
  then have big: "100 < totalMinOf (+) (assets (dashboard ?pg))"
    by simp
  have cl: "checkLimits (+) 0 (assets (dashboard ?pg)) = Inr 120"
    by (simp add: examplePage_def bounded_def)
  from min_sum_rejected_for_professionals [OF pro big, of offline] cl pro tot
  show ?thesis by simp
qed

text \<open>
  At the beginner level the same bounds pass both validations and are posted: the
  payload carries a minimum of 0.6 for each of the two assets.
\<close>

theorem min_sum_unchecked_for_beginners:
  "1 < totalMinWeight (assets (dashboard (examplePage (Some ''beginner'') False
      [bounded ''AAPL'' (Some 60) None, bounded ''MSFT'' (Some 60) None]))) \<and>
   100 < totalMinOf (+) (assets (dashboard (examplePage (Some ''beginner'') False
      [bounded ''AAPL'' (Some 60) None, bounded ''MSFT'' (Some 60) None]))) \<and>
   validateForm (+) (examplePage (Some ''beginner'') False
      [bounded ''AAPL'' (Some 60) None, bounded ''MSFT'' (Some 60) None]) = None \<and>
   validateForm_v6 (+) (examplePage (Some ''beginner'') False
      [bounded ''AAPL'' (Some 60) None, bounded ''MSFT'' (Some 60) None]) = None \<and>
   posts (fst (runOptimize (+) offline (examplePage (Some ''beginner'') False
      [bounded ''AAPL'' (Some 60) None, bounded ''MSFT'' (Some 60) None]))) =
     [buildOptimizationPayload [bounded ''AAPL'' (Some 60) None, bounded ''MSFT'' (Some 60) None]
        (paramsOf (Some 10000) (examplePage (Some ''beginner'') False
           [bounded ''AAPL'' (Some 60) None, bounded ''MSFT'' (Some 60) None]))
        (Some ''beginner'') (Some ''beginner'')] \<and>
   posts (fst (runOptimize_v6 (+) offline (examplePage (Some ''beginner'') False
      [bounded ''AAPL'' (Some 60) None, bounded ''MSFT'' (Some 60) None]))) =
     [buildOptimizationPayload [bounded ''AAPL'' (Some 60) None, bounded ''MSFT'' (Some 60) None]
        (paramsOf (Some 999999999) (examplePage (Some ''beginner'') False
           [bounded ''AAPL'' (Some 60) None, bounded ''MSFT'' (Some 60) None]))
        (Some ''beginner'') (Some ''beginner'')] \<and>
   allocation_limits
     (buildOptimizationPayload [bounded ''AAPL'' (Some 60) None, bounded ''MSFT'' (Some 60) None]
        (paramsOf (Some 10000) (examplePage (Some ''beginner'') False
           [bounded ''AAPL'' (Some 60) None, bounded ''MSFT'' (Some 60) None]))
        (Some ''beginner'') (Some ''beginner'')) =
     Some (allocationLimits Map.empty
        [bounded ''AAPL'' (Some 60) None, bounded ''MSFT'' (Some 60) None]) \<and>
   allocationLimits Map.empty [bounded ''AAPL'' (Some 60) None, bounded ''MSFT'' (Some 60) None]
     ''AAPL'' = Some \<lparr>lim_min = 3 / 5, lim_max = 1\<rparr> \<and>
   allocationLimits Map.empty [bounded ''AAPL'' (Some 60) None, bounded ''MSFT'' (Some 60) None]
     ''MSFT'' = Some \<lparr>lim_min = 3 / 5, lim_max = 1\<rparr>"
proof -
  let ?as = "[bounded ''AAPL'' (Some 60) None, bounded ''MSFT'' (Some 60) None]"
  let ?pg = "examplePage (Some ''beginner'') False ?as"
  have tot: "1 < totalMinWeight (assets (dashboard ?pg))"
    by (simp add: examplePage_def totalMinWeight_example)
  have tot': "100 < totalMinOf (+) (assets (dashboard ?pg))"
    by (simp add: examplePage_def totalMinOf_example)
  have v: "validateForm (+) ?pg = None" and v6: "validateForm_v6 (+) ?pg = None"
    by (rule validate_bounded_beginner)+
  have lv: "levelOf ?pg = ''beginner''"
    by (simp add: levelOf_def orElse_def examplePage_def)
  have la: "allocationLimits Map.empty ?as ''AAPL'' = Some \<lparr>lim_min = 3 / 5, lim_max = 1\<rparr>"
    by (simp add: limitsOf_eq bounded_def holding_def)
  have lm: "allocationLimits Map.empty ?as ''MSFT'' = Some \<lparr>lim_min = 3 / 5, lim_max = 1\<rparr>"
    by (simp add: limitsOf_eq bounded_def holding_def)
  from tot tot' v v6 la lm posts_example [OF v] posts_example_v6 [OF v6] lv
  show ?thesis by (simp add: allocation_limits_example)
qed

section \<open>Bounds in a posted payload\<close>

lemma allocationLimits_lookup:
  "allocationLimits acc as t = Some l \<Longrightarrow> acc t = Some l \<or> (\<exists>a \<in> set as. limitsOf a = Some l)"
proof (induction as arbitrary: acc)
  case Nil
  then show ?case by simp
next
  case (Cons a as)
  show ?case
  proof (cases "limitsOf a")
    case None
    with Cons.prems have "allocationLimits acc as t = Some l" by simp
    from Cons.IH [OF this] show ?thesis by auto
  next
    case (Some l')
    with Cons.prems have "allocationLimits (acc(ticker a \<mapsto> l')) as t = Some l" by simp
    from Cons.IH [OF this] Some show ?thesis by (auto split: if_splits)
  qed
qed

lemma limitsOf_ordered:
  assumes "limitsOf a = Some l"
    and "\<And>mn mx. minWeight a = Some mn \<Longrightarrow> maxWeight a = Some mx \<Longrightarrow> mn \<le> mx"
    and "\<And>mn. minWeight a = Some mn \<Longrightarrow> mn \<le> 100"
    and "\<And>mx. maxWeight a = Some mx \<Longrightarrow> 0 \<le> mx"
  shows "lim_min l \<le> lim_max l"
proof (cases "minWeight a")
  case None
  with assms(1) obtain mx where mx: "maxWeight a = Some mx"
    and l: "l = \<lparr>lim_min = 0, lim_max = mx / 100\<rparr>"
    by (cases "maxWeight a") (auto simp: limitsOf_eq)
  from assms(4) [OF mx] l show ?thesis by simp
next
  case (Some mn)
  show ?thesis
  proof (cases "maxWeight a")
    case None
    with Some assms(1) have "l = \<lparr>lim_min = mn / 100, lim_max = 1\<rparr>"
      by (auto simp: limitsOf_eq)
    with assms(3) [OF Some] show ?thesis by simp
  next
    case (Some mx)
    with \<open>minWeight a = Some mn\<close> assms(1) have "l = \<lparr>lim_min = mn / 100, lim_max = mx / 100\<rparr>"
      by (auto simp: limitsOf_eq)
    with assms(2) [OF \<open>minWeight a = Some mn\<close> Some] show ?thesis by simp
  qed
qed

lemma allocation_limits_build:
  "allocation_limits (buildOptimizationPayload as ps l al) = Some m \<Longrightarrow>
     m = allocationLimits Map.empty as"
  by (auto simp: buildOptimizationPayload_def Let_def split: if_splits)

lemma posted_limits_ordered:
  assumes pro: "isPro pg"
    and cp: "checkPro add pg = None"
    and rng: "\<forall>a \<in> set (assets (dashboard pg)).
               (\<forall>mn. minWeight a = Some mn \<longrightarrow> mn \<le> 100) \<and>
               (\<forall>mx. maxWeight a = Some mx \<longrightarrow> 0 \<le> mx)"
    and lim: "allocation_limits (buildOptimizationPayload (assets (dashboard pg)) ps l al) = Some m"
    and look: "m t = Some e"
  shows "lim_min e \<le> lim_max e"
proof -
  from pro cp obtain tm where tm: "checkLimits add 0 (assets (dashboard pg)) = Inr tm"
    by (auto simp: checkPro_def split: sum.splits)
  from checkLimits_Inr [OF tm]
  have ok: "\<forall>a \<in> set (assets (dashboard pg)). \<forall>mn mx.
              minWeight a = Some mn \<longrightarrow> maxWeight a = Some mx \<longrightarrow> mn \<le> mx"
    by simp
  from allocation_limits_build [OF lim] look
  have "allocationLimits Map.empty (assets (dashboard pg)) t = Some e" by simp
  from allocationLimits_lookup [OF this]
  obtain a where a: "a \<in> set (assets (dashboard pg))" "limitsOf a = Some e" by auto
  show ?thesis
    using limitsOf_ordered [OF a(2)] ok rng a(1) by blast
qed

text \<open>
  C8, at the professional level. A request of that level in which some asset has both
  bounds entered and its minimum above its maximum is rejected by validation, with
  nothing posted; so in every payload that is posted each asset with both bounds entered
  has its minimum at most its maximum. When moreover every entered minimum is at most
  100 and every entered maximum is at least 0, every entry of
  \<^verbatim>\<open>allocation_limits\<close> in the payload, with the defaults 0 and 1 filled in, has
  \<^verbatim>\<open>min\<close> at most \<^verbatim>\<open>max\<close>.
\<close>

theorem conflicting_bounds_rejected_for_professionals:
  "isPro pg \<Longrightarrow>
     ((\<exists>a \<in> set (assets (dashboard pg)). \<exists>mn mx.
          minWeight a = Some mn \<and> maxWeight a = Some mx \<and> mn > mx) \<longrightarrow>
        (\<exists>err. validateForm add pg = Some err \<and> runOptimize add server pg = ([Alert err], pg)) \<and>
        (\<exists>err. validateForm_v6 add pg = Some err \<and> runOptimize_v6 add server pg = ([Alert err], pg)) \<and>
        posts (fst (runOptimize add server pg)) = [] \<and>
        posts (fst (runOptimize_v6 add server pg)) = []) \<and>
     (\<forall>q \<in> set (posts (fst (runOptimize add server pg))) \<union> set (posts (fst (runOptimize_v6 add server pg))).
        (\<forall>a \<in> set (assets (dashboard pg)). \<forall>mn mx.
           minWeight a = Some mn \<longrightarrow> maxWeight a = Some mx \<longrightarrow> mn \<le> mx) \<and>
        ((\<forall>a \<in> set (assets (dashboard pg)).
            (\<forall>mn. minWeight a = Some mn \<longrightarrow> mn \<le> 100) \<and>
            (\<forall>mx. maxWeight a = Some mx \<longrightarrow> 0 \<le> mx)) \<longrightarrow>
         (\<forall>m t e. allocation_limits q = Some m \<longrightarrow> m t = Some e \<longrightarrow> lim_min e \<le> lim_max e)))"
proof -
  assume pro: "isPro pg"
  have rejected: "(\<exists>a \<in> set (assets (dashboard pg)). \<exists>mn mx.
          minWeight a = Some mn \<and> maxWeight a = Some mx \<and> mn > mx) \<longrightarrow>
        (\<exists>err. validateForm add pg = Some err \<and> runOptimize add server pg = ([Alert err], pg)) \<and>
        (\<exists>err. validateForm_v6 add pg = Some err \<and> runOptimize_v6 add server pg = ([Alert err], pg)) \<and>
        posts (fst (runOptimize add server pg)) = [] \<and>
        posts (fst (runOptimize_v6 add server pg)) = []"
  proof
    assume "\<exists>a \<in> set (assets (dashboard pg)). \<exists>mn mx.
              minWeight a = Some mn \<and> maxWeight a = Some mx \<and> mn > mx"
    with checkPro_conflict [OF pro] obtain m where m: "checkPro add pg = Some m" by blast
    from validateForm_checkPro [OF m] obtain e where e: "validateForm add pg = Some e" ..
    from validateForm_v6_checkPro [OF m] obtain e6 where e6: "validateForm_v6 add pg = Some e6" ..
    from e e6 show "(\<exists>err. validateForm add pg = Some err \<and> runOptimize add server pg = ([Alert err], pg)) \<and>
        (\<exists>err. validateForm_v6 add pg = Some err \<and> runOptimize_v6 add server pg = ([Alert err], pg)) \<and>
        posts (fst (runOptimize add server pg)) = [] \<and>
        posts (fst (runOptimize_v6 add server pg)) = []"
      by (simp add: runOptimize_rejected runOptimize_v6_rejected)
  qed
  have posted: "\<forall>q \<in> set (posts (fst (runOptimize add server pg))) \<union> set (posts (fst (runOptimize_v6 add server pg))).
        (\<forall>a \<in> set (assets (dashboard pg)). \<forall>mn mx.
           minWeight a = Some mn \<longrightarrow> maxWeight a = Some mx \<longrightarrow> mn \<le> mx) \<and>
        ((\<forall>a \<in> set (assets (dashboard pg)).
            (\<forall>mn. minWeight a = Some mn \<longrightarrow> mn \<le> 100) \<and>
            (\<forall>mx. maxWeight a = Some mx \<longrightarrow> 0 \<le> mx)) \<longrightarrow>
         (\<forall>m t e. allocation_limits q = Some m \<longrightarrow> m t = Some e \<longrightarrow> lim_min e \<le> lim_max e))"
  proof
    fix q
    assume q: "q \<in> set (posts (fst (runOptimize add server pg))) \<union> set (posts (fst (runOptimize_v6 add server pg)))"
    then have cp: "checkPro add pg = None"
      by (auto dest!: posts_runOptimize posts_runOptimize_v6 validateForm_None validateForm_v6_None)
    from pro cp obtain tm where tm: "checkLimits add 0 (assets (dashboard pg)) = Inr tm"
      by (auto simp: checkPro_def split: sum.splits)
    from checkLimits_Inr [OF tm]
    have both: "\<forall>a \<in> set (assets (dashboard pg)). \<forall>mn mx.
             minWeight a = Some mn \<longrightarrow> maxWeight a = Some mx \<longrightarrow> mn \<le> mx"
      by simp
    from q obtain ps l al where
      qq: "q = buildOptimizationPayload (assets (dashboard pg)) ps l al"
      by (auto dest!: posts_runOptimize posts_runOptimize_v6)
    have "(\<forall>a \<in> set (assets (dashboard pg)).
            (\<forall>mn. minWeight a = Some mn \<longrightarrow> mn \<le> 100) \<and>
            (\<forall>mx. maxWeight a = Some mx \<longrightarrow> 0 \<le> mx)) \<longrightarrow>
         (\<forall>m t e. allocation_limits q = Some m \<longrightarrow> m t = Some e \<longrightarrow> lim_min e \<le> lim_max e)"
      using posted_limits_ordered [OF pro cp] qq by blast
    with both show "(\<forall>a \<in> set (assets (dashboard pg)). \<forall>mn mx.
           minWeight a = Some mn \<longrightarrow> maxWeight a = Some mx \<longrightarrow> mn \<le> mx) \<and>
        ((\<forall>a \<in> set (assets (dashboard pg)).
            (\<forall>mn. minWeight a = Some mn \<longrightarrow> mn \<le> 100) \<and>
            (\<forall>mx. maxWeight a = Some mx \<longrightarrow> 0 \<le> mx)) \<longrightarrow>
         (\<forall>m t e. allocation_limits q = Some m \<longrightarrow> m t = Some e \<longrightarrow> lim_min e \<le> lim_max e))"
      by (rule conjI)
  qed
  from rejected posted show ?thesis by (rule conjI)
qed


text \<open>
  Two requests that are posted with a minimum above the maximum: at the beginner level,
  where the bounds are not checked; and at the professional level, where a bound
  entered alone is compared with nothing (a maximum of -10 against the default
  minimum 0).
\<close>

theorem conflicting_bounds_unchecked:
  "validateForm (+) (examplePage (Some ''beginner'') False
      [bounded ''AAPL'' (Some 50) (Some 10), bounded ''MSFT'' None None]) = None \<and>
   posts (fst (runOptimize (+) offline (examplePage (Some ''beginner'') False
      [bounded ''AAPL'' (Some 50) (Some 10), bounded ''MSFT'' None None]))) =
     [buildOptimizationPayload [bounded ''AAPL'' (Some 50) (Some 10), bounded ''MSFT'' None None]
        (paramsOf (Some 10000) (examplePage (Some ''beginner'') False
           [bounded ''AAPL'' (Some 50) (Some 10), bounded ''MSFT'' None None]))
        (Some ''beginner'') (Some ''beginner'')] \<and>
   allocation_limits
     (buildOptimizationPayload [bounded ''AAPL'' (Some 50) (Some 10), bounded ''MSFT'' None None]
        (paramsOf (Some 10000) (examplePage (Some ''beginner'') False
           [bounded ''AAPL'' (Some 50) (Some 10), bounded ''MSFT'' None None]))
        (Some ''beginner'') (Some ''beginner'')) =
     Some (allocationLimits Map.empty
        [bounded ''AAPL'' (Some 50) (Some 10), bounded ''MSFT'' None None]) \<and>
   allocationLimits Map.empty [bounded ''AAPL'' (Some 50) (Some 10), bounded ''MSFT'' None None]
     ''AAPL'' = Some \<lparr>lim_min = 1 / 2, lim_max = 1 / 10\<rparr> \<and>
   validateForm (+) (examplePage (Some ''professional'') False
      [bounded ''AAPL'' None (Some (- 10)), bounded ''MSFT'' None None]) = None \<and>
   posts (fst (runOptimize (+) offline (examplePage (Some ''professional'') False
      [bounded ''AAPL'' None (Some (- 10)), bounded ''MSFT'' None None]))) =
     [buildOptimizationPayload [bounded ''AAPL'' None (Some (- 10)), bounded ''MSFT'' None None]
        (paramsOf (Some 10000) (examplePage (Some ''professional'') False
           [bounded ''AAPL'' None (Some (- 10)), bounded ''MSFT'' None None]))
        (Some ''professional'') (Some ''professional'')] \<and>
   allocation_limits
     (buildOptimizationPayload [bounded ''AAPL'' None (Some (- 10)), bounded ''MSFT'' None None]
        (paramsOf (Some 10000) (examplePage (Some ''professional'') False
           [bounded ''AAPL'' None (Some (- 10)), bounded ''MSFT'' None None]))
        (Some ''professional'') (Some ''professional'')) =
     Some (allocationLimits Map.empty
        [bounded ''AAPL'' None (Some (- 10)), bounded ''MSFT'' None None]) \<and>
   allocationLimits Map.empty [bounded ''AAPL'' None (Some (- 10)), bounded ''MSFT'' None None]
     ''AAPL'' = Some \<lparr>lim_min = 0, lim_max = - (1 / 10)\<rparr>"
proof -
  let ?b = "examplePage (Some ''beginner'') False
      [bounded ''AAPL'' (Some 50) (Some 10), bounded ''MSFT'' None None]"
  let ?p = "examplePage (Some ''professional'') False
      [bounded ''AAPL'' None (Some (- 10)), bounded ''MSFT'' None None]"
  have vb: "validateForm (+) ?b = None"
    by (rule validate_bounded_beginner)
  have lb: "levelOf ?b = ''beginner''"
    by (simp add: levelOf_def orElse_def examplePage_def)
  have vp: "validateForm (+) ?p = None"
    by (simp add: validateForm_def checkPro_def isPro_def examplePage_def
        bounded_def holding_def exampleForm_def truthy_def)
  have lp: "levelOf ?p = ''professional''"
    by (simp add: levelOf_def orElse_def examplePage_def)
  have ab: "allocationLimits Map.empty
              [bounded ''AAPL'' (Some 50) (Some 10), bounded ''MSFT'' None None] ''AAPL''
            = Some \<lparr>lim_min = 1 / 2, lim_max = 1 / 10\<rparr>"
    by (simp add: limitsOf_eq bounded_def holding_def)
  have ap: "allocationLimits Map.empty
              [bounded ''AAPL'' None (Some (- 10)), bounded ''MSFT'' None None] ''AAPL''
            = Some \<lparr>lim_min = 0, lim_max = - (1 / 10)\<rparr>"
    by (simp add: limitsOf_eq bounded_def holding_def)
  from vb vp ab ap posts_example [OF vb] posts_example [OF vp] lb lp
  show ?thesis by (simp add: allocation_limits_example)
qed

theorem conflicting_bounds_rejected_for_professionals_witness:
  "isPro (examplePage (Some ''professional'') False
      [bounded ''AAPL'' (Some 50) (Some 10), bounded ''MSFT'' None None]) \<and>
   minWeight (bounded ''AAPL'' (Some 50) (Some 10)) = Some 50 \<and>
   maxWeight (bounded ''AAPL'' (Some 50) (Some 10)) = Some 10 \<and>
   posts (fst (runOptimize (+) offline (examplePage (Some ''professional'') False
      [bounded ''AAPL'' (Some 50) (Some 10), bounded ''MSFT'' None None]))) = [] \<and>
   posts (fst (runOptimize_v6 (+) offline (examplePage (Some ''professional'') False
      [bounded ''AAPL'' (Some 50) (Some 10), bounded ''MSFT'' None None]))) = [] \<and>
   isPro (examplePage (Some ''professional'') False
      [bounded ''AAPL'' (Some 10) (Some 50), bounded ''MSFT'' (Some 20) None]) \<and>
   posts (fst (runOptimize (+) offline (examplePage (Some ''professional'') False
      [bounded ''AAPL'' (Some 10) (Some 50), bounded ''MSFT'' (Some 20) None]))) =
     [buildOptimizationPayload [bounded ''AAPL'' (Some 10) (Some 50), bounded ''MSFT'' (Some 20) None]
        (paramsOf (Some 10000) (examplePage (Some ''professional'') False
           [bounded ''AAPL'' (Some 10) (Some 50), bounded ''MSFT'' (Some 20) None]))
        (Some ''professional'') (Some ''professional'')] \<and>
   allocationLimits Map.empty [bounded ''AAPL'' (Some 10) (Some 50), bounded ''MSFT'' (Some 20) None]
     ''MSFT'' = Some \<lparr>lim_min = 1 / 5, lim_max = 1\<rparr> \<and>
   lim_min \<lparr>lim_min = 1 / 5, lim_max = 1\<rparr> \<le> lim_max \<lparr>lim_min = 1 / 5, lim_max = 1\<rparr>"
proof -
  let ?bad = "examplePage (Some ''professional'') False
      [bounded ''AAPL'' (Some 50) (Some 10), bounded ''MSFT'' None None]"
  let ?as = "[bounded ''AAPL'' (Some 10) (Some 50), bounded ''MSFT'' (Some 20) None]"
  let ?good = "examplePage (Some ''professional'') False ?as"
  let ?q = "buildOptimizationPayload ?as (paramsOf (Some 10000) ?good)
              (Some ''professional'') (Some ''professional'')"
  have pb: "isPro ?bad" and pg: "isPro ?good"
    by (simp_all add: isPro_def examplePage_def)
  have mm: "minWeight (bounded ''AAPL'' (Some 50) (Some 10)) = Some 50"
           "maxWeight (bounded ''AAPL'' (Some 50) (Some 10)) = Some 10"
    by (simp_all add: bounded_def)
  have conflict: "\<exists>a \<in> set (assets (dashboard ?bad)). \<exists>mn mx.
                    minWeight a = Some mn \<and> maxWeight a = Some mx \<and> mn > mx"
    by (simp add: examplePage_def bounded_def)
  from conflicting_bounds_rejected_for_professionals [OF pb, of "(+)" offline] conflict
  have rej: "posts (fst (runOptimize (+) offline ?bad)) = [] \<and>
             posts (fst (runOptimize_v6 (+) offline ?bad)) = []"
    by blast
  have vg: "validateForm (+) ?good = None"
    by (simp add: validateForm_def checkPro_def isPro_def examplePage_def
        bounded_def holding_def exampleForm_def truthy_def)
  have lg: "levelOf ?good = ''professional''"
    by (simp add: levelOf_def orElse_def examplePage_def)
  from posts_example [OF vg] lg
  have ps: "posts (fst (runOptimize (+) offline ?good)) = [?q]"
    by simp
  have al: "allocation_limits ?q = Some (allocationLimits Map.empty ?as)"
    by (simp add: allocation_limits_example)
  have ms: "allocationLimits Map.empty ?as ''MSFT'' = Some \<lparr>lim_min = 1 / 5, lim_max = 1\<rparr>"
    by (simp add: limitsOf_eq bounded_def holding_def)
  have rng: "\<forall>a \<in> set (assets (dashboard ?good)).
               (\<forall>mn. minWeight a = Some mn \<longrightarrow> mn \<le> 100) \<and>
               (\<forall>mx. maxWeight a = Some mx \<longrightarrow> 0 \<le> mx)"
    by (simp add: examplePage_def bounded_def)
  have qin: "?q \<in> set (posts (fst (runOptimize (+) offline ?good))) \<union>
                  set (posts (fst (runOptimize_v6 (+) offline ?good)))"
    using ps by simp
  from conflicting_bounds_rejected_for_professionals [OF pg, of "(+)" offline] qin rng al ms
  have ord: "lim_min \<lparr>lim_min = 1 / 5, lim_max = 1\<rparr> \<le> lim_max \<lparr>lim_min = 1 / 5, lim_max = 1\<rparr>"
    by blast
  from pb mm rej pg ps ms ord show ?thesis by blast
qed

section \<open>The best portfolio of a response\<close>

lemma find_distinct_name:
  "distinct (map p_name ps) \<Longrightarrow> p \<in> set ps \<Longrightarrow>
     find (\<lambda>q. Some (p_name q) = Some (p_name p)) ps = Some p"
proof (induction ps)
  case Nil
  then show ?case by simp
next
  case (Cons a ps)
  show ?case
  proof (cases "a = p")
    case True
    then show ?thesis by simp
  next
    case False
    with Cons.prems have "p \<in> set ps" and "p_name a \<noteq> p_name p" and "distinct (map p_name ps)"
      by auto
    with Cons.IH show ?thesis by simp
  qed
qed

lemma filter_distinct_name:
  "distinct (map p_name ps) \<Longrightarrow> p \<in> set ps \<Longrightarrow>
     filter (\<lambda>q. Some (p_name q) = Some (p_name p)) ps = [p]"
proof (induction ps)
  case Nil
  then show ?case by simp
next
  case (Cons a ps)
  show ?case
  proof (cases "a = p")
    case True
    with Cons.prems have "p_name p \<notin> p_name ` set ps" by simp
    then have "\<forall>q \<in> set ps. p_name q \<noteq> p_name p" by (metis imageI)
    then have "filter (\<lambda>q. Some (p_name q) = Some (p_name p)) ps = []"
      by (auto simp: filter_empty_conv)
    with True show ?thesis by simp
  next
    case False
    with Cons.prems have "p \<in> set ps" and "p_name a \<noteq> p_name p" and "distinct (map p_name ps)"
      by auto
    with Cons.IH show ?thesis by simp
  qed
qed

lemma bestOf_mem: "bestOf b ps \<in> set (b # ps)"
  by (induction ps arbitrary: b) auto

lemma bestOf_max: "q \<in> set (b # ps) \<Longrightarrow> sharpeOf q \<le> sharpeOf (bestOf b ps)"
proof (induction ps arbitrary: b q)
  case Nil
  then show ?case by simp
next
  case (Cons p ps)
  have ge: "sharpeOf b \<le> sharpeOf (bestOf (if sharpeOf b < sharpeOf p then p else b) ps)"
  proof -
    have "sharpeOf b \<le> sharpeOf (if sharpeOf b < sharpeOf p then p else b)" by simp
    also have "\<dots> \<le> sharpeOf (bestOf (if sharpeOf b < sharpeOf p then p else b) ps)"
      by (rule Cons.IH) simp
    finally show ?thesis .
  qed
  have gp: "sharpeOf p \<le> sharpeOf (bestOf (if sharpeOf b < sharpeOf p then p else b) ps)"
  proof -
    have "sharpeOf p \<le> sharpeOf (if sharpeOf b < sharpeOf p then p else b)" by simp
    also have "\<dots> \<le> sharpeOf (bestOf (if sharpeOf b < sharpeOf p then p else b) ps)"
      by (rule Cons.IH) simp
    finally show ?thesis .
  qed
  from Cons.prems consider "q = b" | "q = p" | "q \<in> set ps" by auto
  then show ?case
  proof cases
    case 1 with ge show ?thesis by simp
  next
    case 2 with gp show ?thesis by simp
  next
    case 3
    then have "sharpeOf q \<le> sharpeOf (bestOf (if sharpeOf b < sharpeOf p then p else b) ps)"
      by (intro Cons.IH) simp
    then show ?thesis by simp
  qed
qed

lemma names_computed:
  "map p_name (computed solve obs) = map objectiveName (filter (succeeded solve) obs)"
  by (induction obs) (auto simp: resultPortfolio_def succeeded_def split: sum.splits)

lemma computed_mem:
  "ob \<in> set obs \<Longrightarrow> solve ob = Inr r \<Longrightarrow> resultPortfolio ob r \<in> set (computed solve obs)"
  by (induction obs) (auto split: sum.splits)

lemma mem_computed:
  "p \<in> set (computed solve obs) \<Longrightarrow> \<exists>ob r. ob \<in> set obs \<and> solve ob = Inr r \<and> p = resultPortfolio ob r"
  by (induction obs) (auto split: sum.splits)

lemma inj_objectiveName: "inj objectiveName"
proof (rule injI)
  fix x y assume "objectiveName x = objectiveName y"
  then show "x = y" by (cases x; cases y) simp_all
qed

lemma distinct_computed: "distinct (map p_name (computed solve objectives))"
proof -
  have "distinct objectives" by (simp add: objectives_def)
  then have "distinct (filter (succeeded solve) objectives)" by simp
  moreover have "inj_on objectiveName (set (filter (succeeded solve) objectives))"
    using inj_objectiveName by (rule inj_on_subset) simp
  ultimately show ?thesis
    by (simp add: names_computed distinct_map)
qed

lemma designate_best:
  assumes "ps \<noteq> []"
  shows "\<exists>p \<in> set ps. designate ps = Some (p_name p) \<and> (\<forall>q \<in> set ps. sharpeOf q \<le> sharpeOf p)"
proof -
  from assms obtain b qs where ps: "ps = b # qs" by (cases ps) auto
  have "bestOf b qs \<in> set ps" using bestOf_mem [of b qs] ps by simp
  moreover have "designate ps = Some (p_name (bestOf b qs))" by (simp add: designate_def ps)
  moreover have "\<forall>q \<in> set ps. sharpeOf q \<le> sharpeOf (bestOf b qs)"
    using bestOf_max [of _ b qs] ps by simp
  ultimately show ?thesis by blast
qed


lemma objective_listed: "ob \<in> set objectives"
  by (cases ob) (simp_all add: objectives_def)

lemma portfoliosOf_optimizeAll: "portfoliosOf (optimizeAll solve) = computed solve objectives"
  by (simp add: portfoliosOf_def optimizeAll_def)

lemma best_portfolio_optimizeAll:
  "best_portfolio (optimizeAll solve) = designate (computed solve objectives)"
  by (simp add: optimizeAll_def)

lemma getBestPortfolio_designated:
  assumes "distinct (map p_name (portfoliosOf d))" and "p \<in> set (portfoliosOf d)"
    and "best_portfolio d = Some (p_name p)"
  shows "getBestPortfolio d = Some p" and "markedBest d = [p]"
proof -
  from assms(2) obtain p0 ps where ne: "portfoliosOf d = p0 # ps"
    by (cases "portfoliosOf d") auto
  from find_distinct_name [OF assms(1,2)] assms(3)
  have "find (\<lambda>q. Some (p_name q) = best_portfolio d) (portfoliosOf d) = Some p"
    by simp
  with ne show "getBestPortfolio d = Some p"
    by (simp add: getBestPortfolio_def Let_def)
  from filter_distinct_name [OF assms(1,2)] assms(3)
  show "markedBest d = [p]"
    by (simp add: markedBest_def)
qed

text \<open>
  C6. The answer to a request for all objectives holds the result of every objective
  whose solve succeeded, in the order of the objectives, and nothing for one that
  failed; a failure never makes the request fail. When at least one objective succeeded
  the answer designates a portfolio of the greatest Sharpe ratio, and the portfolio that
  \<^const>\<open>getBestPortfolio\<close> presents, like the one section that the professional rendering
  marks, is the portfolio of the result set that bears the designated name.
\<close>

theorem all_objectives_response:
  "map p_name (portfoliosOf (optimizeAll solve)) =
     map objectiveName (filter (succeeded solve) objectives) \<and>
   (\<forall>ob r. solve ob = Inr r \<longrightarrow> resultPortfolio ob r \<in> set (portfoliosOf (optimizeAll solve))) \<and>
   (\<forall>p \<in> set (portfoliosOf (optimizeAll solve)). \<exists>ob r. solve ob = Inr r \<and> p = resultPortfolio ob r) \<and>
   (portfoliosOf (optimizeAll solve) = [] \<longrightarrow>
      best_portfolio (optimizeAll solve) = None \<and> getBestPortfolio (optimizeAll solve) = None) \<and>
   (portfoliosOf (optimizeAll solve) \<noteq> [] \<longrightarrow>
      (\<exists>p \<in> set (portfoliosOf (optimizeAll solve)).
         best_portfolio (optimizeAll solve) = Some (p_name p) \<and>
         (\<forall>q \<in> set (portfoliosOf (optimizeAll solve)). sharpeOf q \<le> sharpeOf p) \<and>
         getBestPortfolio (optimizeAll solve) = Some p \<and>
         markedBest (optimizeAll solve) = [p]))"
proof -
  let ?d = "optimizeAll solve"
  have names: "map p_name (portfoliosOf ?d) = map objectiveName (filter (succeeded solve) objectives)"
    by (simp add: portfoliosOf_optimizeAll names_computed)
  have incl: "\<forall>ob r. solve ob = Inr r \<longrightarrow> resultPortfolio ob r \<in> set (portfoliosOf ?d)"
    by (simp add: portfoliosOf_optimizeAll computed_mem objective_listed)
  have only: "\<forall>p \<in> set (portfoliosOf ?d). \<exists>ob r. solve ob = Inr r \<and> p = resultPortfolio ob r"
    unfolding portfoliosOf_optimizeAll using mem_computed [of _ solve objectives] by blast
  have none: "portfoliosOf ?d = [] \<longrightarrow> best_portfolio ?d = None \<and> getBestPortfolio ?d = None"
    by (simp add: getBestPortfolio_def best_portfolio_optimizeAll portfoliosOf_optimizeAll
        designate_def)
  have some: "portfoliosOf ?d \<noteq> [] \<longrightarrow>
      (\<exists>p \<in> set (portfoliosOf ?d).
         best_portfolio ?d = Some (p_name p) \<and>
         (\<forall>q \<in> set (portfoliosOf ?d). sharpeOf q \<le> sharpeOf p) \<and>
         getBestPortfolio ?d = Some p \<and> markedBest ?d = [p])"
  proof
    assume "portfoliosOf ?d \<noteq> []"
    then have "computed solve objectives \<noteq> []" by (simp add: portfoliosOf_optimizeAll)
    from designate_best [OF this] obtain p where
      p: "p \<in> set (portfoliosOf ?d)" "best_portfolio ?d = Some (p_name p)"
         "\<forall>q \<in> set (portfoliosOf ?d). sharpeOf q \<le> sharpeOf p"
      by (auto simp: portfoliosOf_optimizeAll best_portfolio_optimizeAll)
    have d: "distinct (map p_name (portfoliosOf ?d))"
      by (simp add: portfoliosOf_optimizeAll distinct_computed)
    from getBestPortfolio_designated [OF d p(1,2)] p
    show "\<exists>p \<in> set (portfoliosOf ?d).
         best_portfolio ?d = Some (p_name p) \<and>
         (\<forall>q \<in> set (portfoliosOf ?d). sharpeOf q \<le> sharpeOf p) \<and>
         getBestPortfolio ?d = Some p \<and> markedBest ?d = [p]"
      by blast
  qed
  from names incl only none some show ?thesis by blast
qed

lemma computed_partlyFailing:
  "computed partlyFailing objectives =
     [resultPortfolio MaxSharpe
        \<lparr>r_tickers = [''AAPL'', ''MSFT''], r_weights = [0.4, 0.6], sharpe_ratio = 1.2\<rparr>,
      resultPortfolio MinVolatility
        \<lparr>r_tickers = [''AAPL'', ''MSFT''], r_weights = [0.7, 0.3], sharpe_ratio = 0.9\<rparr>,
      resultPortfolio MinCVaR
        \<lparr>r_tickers = [''AAPL'', ''MSFT''], r_weights = [0.5, 0.5], sharpe_ratio = 1.5\<rparr>]"
  by (simp add: objectives_def)

theorem all_objectives_response_witness:
  "map p_name (portfoliosOf (optimizeAll partlyFailing)) =
     [''max_sharpe'', ''min_volatility'', ''min_cvar''] \<and>
   best_portfolio (optimizeAll partlyFailing) = Some ''min_cvar'' \<and>
   map_option p_name (getBestPortfolio (optimizeAll partlyFailing)) = Some ''min_cvar'' \<and>
   map p_name (markedBest (optimizeAll partlyFailing)) = [''min_cvar'']"
proof -
  let ?d = "optimizeAll partlyFailing"
  have names: "map p_name (portfoliosOf ?d) = [''max_sharpe'', ''min_volatility'', ''min_cvar'']"
    by (simp add: portfoliosOf_optimizeAll computed_partlyFailing resultPortfolio_def)
  then have ne: "portfoliosOf ?d \<noteq> []" by auto
  have best: "best_portfolio ?d = Some ''min_cvar''"
    by (simp add: best_portfolio_optimizeAll computed_partlyFailing designate_def
        resultPortfolio_def sharpeOf_def)
  from all_objectives_response [of partlyFailing] ne obtain p where
    "best_portfolio ?d = Some (p_name p)" "getBestPortfolio ?d = Some p" "markedBest ?d = [p]"
    by blast
  with best names show ?thesis by simp
qed

section \<open>Monotonicity of the frontier\<close>

lemma leastVolatile_mem: "leastVolatile vol b ws \<in> set (b # ws)"
  by (induction ws arbitrary: b) auto

lemma leastVolatile_le: "u \<in> set (b # ws) \<Longrightarrow> vol (leastVolatile vol b ws) \<le> vol u"
proof (induction ws arbitrary: b u)
  case Nil
  then show ?case by simp
next
  case (Cons w ws)
  let ?b = "if vol w < vol b then w else b"
  have step: "vol (leastVolatile vol ?b ws) \<le> vol ?b"
    by (rule Cons.IH) simp
  from Cons.prems consider "u = b" | "u = w" | "u \<in> set ws" by auto
  then show ?case
  proof cases
    case 1
    have "vol ?b \<le> vol b" by simp
    with step 1 show ?thesis by simp
  next
    case 2
    have "vol ?b \<le> vol w" by simp
    with step 2 show ?thesis by simp
  next
    case 3
    then have "vol (leastVolatile vol ?b ws) \<le> vol u"
      by (intro Cons.IH) simp
    then show ?thesis by simp
  qed
qed

lemma minimumVolatility_Some:
  assumes "minimumVolatility ret vol feasible t = Some w"
  shows "w \<in> set feasible" and "t \<le> ret w"
    and "\<And>u. u \<in> set feasible \<Longrightarrow> t \<le> ret u \<Longrightarrow> vol w \<le> vol u"
proof -
  from assms obtain b ws where f: "filter (\<lambda>w. t \<le> ret w) feasible = b # ws"
    and w: "w = leastVolatile vol b ws"
    by (auto simp: minimumVolatility_def split: list.splits)
  from leastVolatile_mem [of vol b ws] w f
  have "w \<in> set (filter (\<lambda>w. t \<le> ret w) feasible)" by simp
  then show "w \<in> set feasible" and "t \<le> ret w" by simp_all
  fix u assume "u \<in> set feasible" and "t \<le> ret u"
  then have "u \<in> set (filter (\<lambda>w. t \<le> ret w) feasible)" by simp
  with f have "u \<in> set (b # ws)" by simp
  from leastVolatile_le [OF this] w show "vol w \<le> vol u" by simp
qed

lemma minimumVolatility_None:
  "minimumVolatility ret vol feasible t = None \<longleftrightarrow> (\<forall>w \<in> set feasible. \<not> t \<le> ret w)"
proof (cases "filter (\<lambda>w. t \<le> ret w) feasible")
  case Nil
  then show ?thesis by (simp add: minimumVolatility_def filter_empty_conv)
next
  case (Cons b ws)
  then have "b \<in> set (filter (\<lambda>w. t \<le> ret w) feasible)" by simp
  then have "\<exists>w \<in> set feasible. t \<le> ret w" by auto
  with Cons show ?thesis by (simp add: minimumVolatility_def)
qed

lemma minimumVolatility_mono:
  assumes "t1 \<le> t2"
    and "minimumVolatility ret vol feasible t1 = Some w1"
    and "minimumVolatility ret vol feasible t2 = Some w2"
  shows "vol w1 \<le> vol w2"
proof -
  from minimumVolatility_Some(1,2) [OF assms(3)] assms(1)
  have "w2 \<in> set feasible" and "t1 \<le> ret w2" by auto
  with minimumVolatility_Some(3) [OF assms(2)] show ?thesis by blast
qed

lemma set_sweep:
  "set (sweep ret vol feasible ts) =
     {(t, vol w) | t w. t \<in> set ts \<and> minimumVolatility ret vol feasible t = Some w}"
  by (induction ts) (auto split: option.splits)

lemma targets_sweep:
  "map fst (sweep ret vol feasible ts) = filter (\<lambda>t. \<exists>w \<in> set feasible. t \<le> ret w) ts"
proof (induction ts)
  case Nil
  then show ?case by simp
next
  case (Cons t ts)
  show ?case
  proof (cases "minimumVolatility ret vol feasible t")
    case None
    then have "\<forall>w \<in> set feasible. \<not> t \<le> ret w" by (simp add: minimumVolatility_None)
    with None Cons.IH show ?thesis by simp
  next
    case (Some w)
    from minimumVolatility_Some(1,2) [OF Some] have "\<exists>w \<in> set feasible. t \<le> ret w" by blast
    with Some Cons.IH show ?thesis by simp
  qed
qed

lemma sorted_sweep:
  "sorted ts \<Longrightarrow>
     sorted (map fst (sweep ret vol feasible ts)) \<and> sorted (map snd (sweep ret vol feasible ts))"
proof (induction ts)
  case Nil
  then show ?case by simp
next
  case (Cons t ts)
  then have ts: "sorted ts" and le: "\<forall>t' \<in> set ts. t \<le> t'" by simp_all
  note IH = Cons.IH [OF ts]
  show ?case
  proof (cases "minimumVolatility ret vol feasible t")
    case None
    with IH show ?thesis by simp
  next
    case (Some w)
    have "\<forall>p \<in> set (sweep ret vol feasible ts). t \<le> fst p \<and> vol w \<le> snd p"
    proof
      fix p assume "p \<in> set (sweep ret vol feasible ts)"
      then obtain t' w' where p: "p = (t', vol w')" and t': "t' \<in> set ts"
        and w': "minimumVolatility ret vol feasible t' = Some w'"
        by (auto simp: set_sweep)
      from le t' have "t \<le> t'" by simp
      with minimumVolatility_mono [OF _ Some w'] p show "t \<le> fst p \<and> vol w \<le> snd p" by simp
    qed
    with Some IH show ?thesis by simp
  qed
qed

lemma fold_min_le: "fold min xs (a::real) \<le> a"
proof (induction xs arbitrary: a)
  case Nil
  show ?case by simp
next
  case (Cons x xs)
  have "fold min xs (min x a) \<le> min x a" by (rule Cons.IH)
  then show ?case by simp
qed

lemma le_fold_max: "(a::real) \<le> fold max xs a"
proof (induction xs arbitrary: a)
  case Nil
  show ?case by simp
next
  case (Cons x xs)
  have "max x a \<le> fold max xs (max x a)" by (rule Cons.IH)
  then show ?case by simp
qed

lemma sorted_targetReturns: "lo \<le> hi \<Longrightarrow> sorted (targetReturns lo hi n)"
proof -
  assume lh: "lo \<le> hi"
  define d where "d = real (n - 1)"
  have d0: "0 \<le> d" by (simp add: d_def)
  have mono: "(hi - lo) * real i / d \<le> (hi - lo) * real j / d" if "i \<le> j" for i j
  proof -
    from that lh have "(hi - lo) * real i \<le> (hi - lo) * real j"
      by (intro mult_left_mono) simp_all
    then show ?thesis
      using d0 by (rule divide_right_mono)
  qed
  have "sorted (map (\<lambda>i. lo + (hi - lo) * real i / d) [0..<n])"
    by (simp add: sorted_iff_nth_mono mono)
  then show ?thesis
    unfolding targetReturns_def d_def by simp
qed

text \<open>
  C7. The output of the frontier generator is a sequence of pairs of target return and
  achieved volatility, in the order of increasing target, in which the volatility never
  decreases; each pair is the least volatility that a feasible portfolio reaching the
  target achieves; and the targets of the output are exactly the swept targets for which
  the solver is feasible, the others being left out. The same holds for a sweep over any
  increasing list of targets.
\<close>

theorem efficient_frontier_monotone:
  "sorted (map fst (efficientFrontier ret vol feasible n)) \<and>
   sorted (map snd (efficientFrontier ret vol feasible n)) \<and>
   (sorted ts \<longrightarrow>
      sorted (map fst (sweep ret vol feasible ts)) \<and>
      sorted (map snd (sweep ret vol feasible ts))) \<and>
   map fst (sweep ret vol feasible ts) = filter (\<lambda>t. \<exists>w \<in> set feasible. t \<le> ret w) ts \<and>
   (\<forall>p \<in> set (sweep ret vol feasible ts).
      \<exists>w \<in> set feasible. fst p \<le> ret w \<and> snd p = vol w \<and>
        (\<forall>u \<in> set feasible. fst p \<le> ret u \<longrightarrow> snd p \<le> vol u))"
proof -
  have front: "sorted (map fst (efficientFrontier ret vol feasible n)) \<and>
               sorted (map snd (efficientFrontier ret vol feasible n))"
  proof (cases feasible)
    case Nil
    then show ?thesis by (simp add: efficientFrontier_def)
  next
    case (Cons w ws)
    have "fold min (map ret ws) (ret w) \<le> ret w" by (rule fold_min_le)
    also have "ret w \<le> fold max (map ret ws) (ret w)" by (rule le_fold_max)
    finally have "sorted (targetReturns (fold min (map ret ws) (ret w))
                            (fold max (map ret ws) (ret w)) n)"
      by (rule sorted_targetReturns)
    from sorted_sweep [OF this] Cons show ?thesis
      by (simp add: efficientFrontier_def)
  qed
  have any: "sorted ts \<longrightarrow>
      sorted (map fst (sweep ret vol feasible ts)) \<and> sorted (map snd (sweep ret vol feasible ts))"
    using sorted_sweep by blast
  have least: "\<forall>p \<in> set (sweep ret vol feasible ts).
      \<exists>w \<in> set feasible. fst p \<le> ret w \<and> snd p = vol w \<and>
        (\<forall>u \<in> set feasible. fst p \<le> ret u \<longrightarrow> snd p \<le> vol u)"
  proof
    fix p assume "p \<in> set (sweep ret vol feasible ts)"
    then obtain t w where p: "p = (t, vol w)"
      and w: "minimumVolatility ret vol feasible t = Some w"
      by (auto simp: set_sweep)
    from minimumVolatility_Some [OF w] p
    show "\<exists>w \<in> set feasible. fst p \<le> ret w \<and> snd p = vol w \<and>
        (\<forall>u \<in> set feasible. fst p \<le> ret u \<longrightarrow> snd p \<le> vol u)"
      by auto
  qed
  from front any targets_sweep [of ret vol feasible ts] least show ?thesis by blast
qed

lemma sweep_threeCandidates:
  "sweep fst snd threeCandidates [0.04, 0.06, 0.10, 0.20] = [(0.04, 0.10), (0.06, 0.15), (0.10, 0.30)]"
  by (simp add: threeCandidates_def minimumVolatility_def)

theorem efficient_frontier_monotone_witness:
  "sorted [0.04, 0.06, 0.10, 0.20 :: real] \<and>
   sweep fst snd threeCandidates [0.04, 0.06, 0.10, 0.20] =
     [(0.04, 0.10), (0.06, 0.15), (0.10, 0.30)] \<and>
   sorted (map snd (sweep fst snd threeCandidates [0.04, 0.06, 0.10, 0.20])) \<and>
   map fst (sweep fst snd threeCandidates [0.04, 0.06, 0.10, 0.20]) = [0.04, 0.06, 0.10] \<and>
   efficientFrontier fst snd threeCandidates 3 = [(0.05, 0.10), (0.085, 0.30), (0.12, 0.30)] \<and>
   sorted (map snd (efficientFrontier fst snd threeCandidates 3))"
proof -
  have s: "sorted [0.04, 0.06, 0.10, 0.20 :: real]" by simp
  have f: "efficientFrontier fst snd threeCandidates 3 = [(0.05, 0.10), (0.085, 0.30), (0.12, 0.30)]"
    by (simp add: efficientFrontier_def threeCandidates_def targetReturns_def
        minimumVolatility_def upt_rec numeral_3_eq_3)
  from efficient_frontier_monotone [of fst snd threeCandidates 3 "[0.04, 0.06, 0.10, 0.20]"] s
  have "sorted (map snd (sweep fst snd threeCandidates [0.04, 0.06, 0.10, 0.20])) \<and>
        sorted (map snd (efficientFrontier fst snd threeCandidates 3))"
    by blast
  with s f sweep_threeCandidates show ?thesis by simp
qed

end
